theory Spec2Isabelle
  imports Complex_Main "HOL-Library.AList"
begin

section \<open>Data model\<close>

text \<open>
  Python strings are sequences of code points and \<open>len\<close> counts code points, so a Python
  string is a list of code points. Dictionary keys that the source writes as literals
  (\<open>"user_id"\<close>, \<open>"type"\<close>, ...) stay HOL strings.
\<close>

type_synonym pystr = "nat list"

definition py :: "string \<Rightarrow> pystr" where
  "py s = map of_char s"

text \<open>A dictionary with string values, as the metadata dictionaries of the source are.\<close>

type_synonym pydict = "(string \<times> pystr) list"

text \<open>Every exception class the collaborators may raise; \<open>except Exception\<close> catches all.\<close>

datatype exn = BackendError | EmbeddingError | SummarizerError | ValidationError
  | ValueError | AttributeError | CacheError

text \<open>
  Modelled from the spec: \<open>agent/schemas.py\<close> is missing. The spec gives
  \<open>memory_type \<in> {FACT, EPISODIC}\<close> and the persisted values \<open>fact\<close> and \<open>episodic\<close>.
\<close>

datatype MemoryType = FACT | EPISODIC

fun MemoryType_value :: "MemoryType \<Rightarrow> pystr" where
  "MemoryType_value FACT = py ''fact''"
| "MemoryType_value EPISODIC = py ''episodic''"

text \<open>\<open>MemoryType(s)\<close>: the member with that value, \<open>ValueError\<close> when there is none.\<close>

definition MemoryType_of :: "pystr \<Rightarrow> exn + MemoryType" where
  "MemoryType_of s =
     (if s = py ''fact'' then Inr FACT
      else if s = py ''episodic'' then Inr EPISODIC
      else Inl ValueError)"

text \<open>
  Modelled from the spec: \<open>agent/schemas.py\<close> is missing. The spec gives the four fields of
  \<open>UserProfileSchema\<close> and of \<open>MemoryItem\<close>.
\<close>

record UserProfileSchema =
  user_id :: pystr
  risk_tolerance :: pystr
  explanation_depth :: pystr
  style_preference :: pystr

record MemoryItem =
  item_id :: pystr
  item_content :: pystr
  memory_type :: MemoryType
  timestamp :: pystr
  item_metadata :: pydict

text \<open>\<open>profile.model_dump()\<close>: the dictionary of the fields.\<close>

definition model_dump :: "UserProfileSchema \<Rightarrow> pydict" where
  "model_dump p =
     [(''user_id'', user_id p), (''risk_tolerance'', risk_tolerance p),
      (''explanation_depth'', explanation_depth p), (''style_preference'', style_preference p)]"

text \<open>\<open>d.update(u)\<close> on dictionaries.\<close>

definition dict_update :: "pydict \<Rightarrow> pydict \<Rightarrow> pydict" where
  "dict_update d u = foldl (\<lambda>acc (k, v). AList.update k v acc) d u"

text \<open>\<open>d.get(k, default)\<close>.\<close>

definition dict_get :: "pydict \<Rightarrow> string \<Rightarrow> pystr \<Rightarrow> pystr" where
  "dict_get d k dflt = (case map_of d k of None \<Rightarrow> dflt | Some v \<Rightarrow> v)"

text \<open>
  A Python float where the code compares one: a number, an infinity or NaN. Every comparison
  with NaN is false, so \<open>not (a < b)\<close> and \<open>a >= b\<close> differ.
\<close>

datatype pyfloat = Num real | PosInf | NegInf | NaN

fun float_lt :: "pyfloat \<Rightarrow> pyfloat \<Rightarrow> bool" where
  "float_lt NaN b = False"
| "float_lt a NaN = False"
| "float_lt (Num a) (Num b) = (a < b)"
| "float_lt NegInf NegInf = False"
| "float_lt NegInf b = True"
| "float_lt a NegInf = False"
| "float_lt PosInf b = False"
| "float_lt a PosInf = True"

fun float_ge :: "pyfloat \<Rightarrow> pyfloat \<Rightarrow> bool" where
  "float_ge NaN b = False"
| "float_ge a NaN = False"
| "float_ge (Num a) (Num b) = (b \<le> a)"
| "float_ge PosInf b = True"
| "float_ge a NegInf = True"
| "float_ge a b = False"

subsection \<open>The vector index\<close>

text \<open>
  The index is an external collaborator. Its contract (spec, external interfaces): records
  \<open>{id, values, metadata}\<close> live in namespaces; \<open>upsert\<close> replaces the record of the same id
  or adds one; \<open>fetch\<close> and \<open>delete\<close> address records by id; \<open>delete\<close> and \<open>query\<close> take a
  metadata filter, a conjunction of equalities; \<open>query\<close> returns the \<open>top_k\<close> best scored
  records that pass the filter, best first. Two namespaces are in use.
\<close>

datatype namespace = MemoryStore | UserProfiles

record vec =
  vec_id :: pystr
  vec_values :: "real list"
  vec_metadata :: pydict

record scored =
  match_id :: pystr
  match_score :: pyfloat
  match_metadata :: pydict

record index_state =
  memory_store :: "vec list"
  user_profiles :: "vec list"

type_synonym meta_filter = "(string \<times> pystr) list"

datatype index_call =
    Upsert namespace vec
  | Fetch namespace "pystr list"
  | DeleteIds namespace "pystr list"
  | DeleteFilter namespace meta_filter
  | Query namespace "real list" nat meta_filter

fun get_ns :: "namespace \<Rightarrow> index_state \<Rightarrow> vec list" where
  "get_ns MemoryStore ix = memory_store ix"
| "get_ns UserProfiles ix = user_profiles ix"

fun set_ns :: "namespace \<Rightarrow> vec list \<Rightarrow> index_state \<Rightarrow> index_state" where
  "set_ns MemoryStore vs ix = ix\<lparr>memory_store := vs\<rparr>"
| "set_ns UserProfiles vs ix = ix\<lparr>user_profiles := vs\<rparr>"

definition matches_filter :: "meta_filter \<Rightarrow> vec \<Rightarrow> bool" where
  "matches_filter flt v = list_all (\<lambda>(k, x). map_of (vec_metadata v) k = Some x) flt"

definition upsert_vec :: "vec \<Rightarrow> vec list \<Rightarrow> vec list" where
  "upsert_vec v vs =
     (if vec_id v \<in> vec_id ` set vs
      then map (\<lambda>u. if vec_id u = vec_id v then v else u) vs
      else vs @ [v])"

subsection \<open>Collaborators and process state\<close>

text \<open>
  The behaviour of everything outside \<open>src/\<close> during one call: the embedding provider, the
  summarizer, the index's scoring and its failures, the JSON helpers, the schema's
  validation and defaults, the settings, the clock and the id generator. A collaborator
  that may raise returns a sum, \<open>Inl\<close> the exception.
\<close>

record env =
  get_embedding :: "pystr \<Rightarrow> exn + real list option"
  similarity :: "real list \<Rightarrow> real list \<Rightarrow> pyfloat"
  index_raises :: "index_call \<Rightarrow> exn option"
  uuid4 :: "nat \<Rightarrow> pystr"
  time_str :: "nat \<Rightarrow> pystr"
  json_dumps :: "pydict \<Rightarrow> pystr"
  safe_json_load :: "pystr option \<Rightarrow> exn + pydict option"
  model_validate :: "pydict \<Rightarrow> exn + UserProfileSchema"
  model_dump_json :: "UserProfileSchema \<Rightarrow> pystr"
  default_risk_tolerance :: pystr
  default_explanation_depth :: pystr
  default_style_preference :: pystr
  EMBEDDING_DIMENSION :: "nat option"
  analyze_interaction_delta :: "UserProfileSchema \<Rightarrow> pystr \<Rightarrow> pystr \<Rightarrow> exn + pydict option"
  summarize :: "pystr list \<Rightarrow> exn + pystr list"
  deduplicate_facts :: "pystr list \<Rightarrow> pystr list \<Rightarrow> exn + pystr list"
  clear_cache :: "exn option"

datatype log_entry = LogInfo string | LogWarning string | LogError string

text \<open>A turn of the short-term buffer: \<open>{"role": ..., "content": ...}\<close>.\<close>

record turn =
  role :: string
  content :: pystr

text \<open>
  The process state: the module-level \<open>index\<close> (\<open>None\<close> when the client failed to import)
  with what it stores, the manager's \<open>_active_context\<close>, what the loggers received, and a
  counter behind \<open>uuid.uuid4()\<close> and \<open>time.time()\<close>. The last field is an observation and
  no code reads it: how many exceptions the collaborators have raised so far.
\<close>

record world =
  index :: "index_state option"
  active_context :: "pystr \<rightharpoonup> turn list"
  logs :: "log_entry list"
  clock :: nat
  raised :: nat

section \<open>Effects: state and exceptions\<close>

type_synonym 'a M = "world \<Rightarrow> (exn + 'a) \<times> world"

definition returnM :: "'a \<Rightarrow> 'a M" where
  "returnM x w = (Inr x, w)"

definition bindM :: "'a M \<Rightarrow> ('a \<Rightarrow> 'b M) \<Rightarrow> 'b M" where
  "bindM m k w = (case m w of (Inl e, w') \<Rightarrow> (Inl e, w') | (Inr x, w') \<Rightarrow> k x w')"

text \<open>\<open>try: m except Exception as e: h e\<close>.\<close>

definition tryM :: "'a M \<Rightarrow> (exn \<Rightarrow> 'a M) \<Rightarrow> 'a M" where
  "tryM m h w = (case m w of (Inl e, w') \<Rightarrow> h e w' | (Inr x, w') \<Rightarrow> (Inr x, w'))"

definition raiseM :: "exn \<Rightarrow> 'a M" where
  "raiseM x w = (Inl x, w\<lparr>raised := Suc (raised w)\<rparr>)"

text \<open>A call of a collaborator that has no effect on the process state.\<close>

definition liftM :: "exn + 'a \<Rightarrow> 'a M" where
  "liftM r = (case r of Inl x \<Rightarrow> raiseM x | Inr y \<Rightarrow> returnM y)"

definition logger :: "log_entry \<Rightarrow> unit M" where
  "logger l w = (Inr (), w\<lparr>logs := logs w @ [l]\<rparr>)"

subsection \<open>Calls on the index\<close>

text \<open>
  A method call on \<open>index\<close> raises \<open>AttributeError\<close> when \<open>index\<close> is \<open>None\<close>, raises what the
  backend raises, and has no effect when it raises.
\<close>

definition index_call :: "env \<Rightarrow> index_call \<Rightarrow> (index_state \<Rightarrow> 'a \<times> index_state) \<Rightarrow> 'a M" where
  "index_call e c f w =
     (case index w of
        None \<Rightarrow> raiseM AttributeError w
      | Some ix \<Rightarrow>
          (case index_raises e c of
             Some x \<Rightarrow> raiseM x w
           | None \<Rightarrow> (let (r, ix') = f ix in (Inr r, w\<lparr>index := Some ix'\<rparr>))))"

definition index_upsert :: "env \<Rightarrow> namespace \<Rightarrow> vec \<Rightarrow> unit M" where
  "index_upsert e ns v =
     index_call e (Upsert ns v) (\<lambda>ix. ((), set_ns ns (upsert_vec v (get_ns ns ix)) ix))"

definition index_fetch :: "env \<Rightarrow> namespace \<Rightarrow> pystr list \<Rightarrow> (pystr \<times> vec) list M" where
  "index_fetch e ns ids =
     index_call e (Fetch ns ids)
       (\<lambda>ix. (map (\<lambda>v. (vec_id v, v)) (filter (\<lambda>v. vec_id v \<in> set ids) (get_ns ns ix)), ix))"

definition index_delete_ids :: "env \<Rightarrow> namespace \<Rightarrow> pystr list \<Rightarrow> unit M" where
  "index_delete_ids e ns ids =
     index_call e (DeleteIds ns ids)
       (\<lambda>ix. ((), set_ns ns (filter (\<lambda>v. vec_id v \<notin> set ids) (get_ns ns ix)) ix))"

definition index_delete_filter :: "env \<Rightarrow> namespace \<Rightarrow> meta_filter \<Rightarrow> unit M" where
  "index_delete_filter e ns flt =
     index_call e (DeleteFilter ns flt)
       (\<lambda>ix. ((), set_ns ns (filter (\<lambda>v. \<not> matches_filter flt v) (get_ns ns ix)) ix))"

definition to_match :: "env \<Rightarrow> real list \<Rightarrow> vec \<Rightarrow> scored" where
  "to_match e qv v =
     \<lparr>match_id = vec_id v, match_score = similarity e qv (vec_values v),
      match_metadata = vec_metadata v\<rparr>"

text \<open>The matches in the order of their scores, best first (an insertion sort).\<close>

fun insert_by_score :: "scored \<Rightarrow> scored list \<Rightarrow> scored list" where
  "insert_by_score m [] = [m]"
| "insert_by_score m (x # xs) =
     (if float_lt (match_score x) (match_score m) then m # x # xs
      else x # insert_by_score m xs)"

definition sort_by_score :: "scored list \<Rightarrow> scored list" where
  "sort_by_score ms = foldr insert_by_score ms []"

definition index_query :: "env \<Rightarrow> namespace \<Rightarrow> real list \<Rightarrow> nat \<Rightarrow> meta_filter \<Rightarrow> scored list M" where
  "index_query e ns qv k flt =
     index_call e (Query ns qv k flt)
       (\<lambda>ix. (take k (sort_by_score
                 (map (to_match e qv) (filter (matches_filter flt) (get_ns ns ix)))), ix))"

section \<open>\<open>memory/user_profile_store.py\<close>\<close>

text \<open>\<open>UserProfileSchema(user_id=user_id)\<close>: every other field takes the schema's default.\<close>

definition UserProfileSchema_new :: "env \<Rightarrow> pystr \<Rightarrow> UserProfileSchema" where
  "UserProfileSchema_new e uid =
     \<lparr>user_id = uid, risk_tolerance = default_risk_tolerance e,
      explanation_depth = default_explanation_depth e,
      style_preference = default_style_preference e\<rparr>"

definition parse_fetch_response :: "(pystr \<times> vec) list \<Rightarrow> pystr \<Rightarrow> vec option" where
  "parse_fetch_response vectors uid = map_of vectors uid"

definition get_profile :: "env \<Rightarrow> pystr \<Rightarrow> UserProfileSchema M" where
  "get_profile e uid w =
     (if index w = None then returnM (UserProfileSchema_new e uid) w
      else tryM
        (bindM (index_fetch e UserProfiles [uid]) (\<lambda>result.
           case parse_fetch_response result uid of
             None \<Rightarrow> returnM (UserProfileSchema_new e uid)
           | Some vector_data \<Rightarrow>
               bindM (liftM (safe_json_load e (map_of (vec_metadata vector_data) ''profile_data'')))
                 (\<lambda>data.
                    case data of
                      None \<Rightarrow> returnM (UserProfileSchema_new e uid)
                    | Some d \<Rightarrow>
                        if d \<noteq> [] then liftM (model_validate e d)
                        else returnM (UserProfileSchema_new e uid))))
        (\<lambda>x. bindM (logger (LogError ''Fetch profile error''))
                (\<lambda>_. returnM (UserProfileSchema_new e uid))) w)"

definition placeholder_vector :: "env \<Rightarrow> real list" where
  "placeholder_vector e =
     (let dim = (case EMBEDDING_DIMENSION e of None \<Rightarrow> 768 | Some d \<Rightarrow> d);
          placeholder = replicate dim 0
      in if placeholder \<noteq> [] then placeholder[0 := 1] else placeholder)"

definition profile_vec :: "env \<Rightarrow> UserProfileSchema \<Rightarrow> vec" where
  "profile_vec e profile =
     \<lparr>vec_id = user_id profile, vec_values = placeholder_vector e,
      vec_metadata = [(''profile_data'', model_dump_json e profile), (''type'', py ''user_profile'')]\<rparr>"

definition update_profile :: "env \<Rightarrow> UserProfileSchema \<Rightarrow> unit M" where
  "update_profile e profile w =
     (if index w = None then returnM () w
      else tryM (index_upsert e UserProfiles (profile_vec e profile))
             (\<lambda>x. logger (LogError ''Update profile error'')) w)"

definition sync_if_changed :: "env \<Rightarrow> UserProfileSchema \<Rightarrow> UserProfileSchema \<Rightarrow> bool M" where
  "sync_if_changed e old_profile current_profile =
     (if model_dump old_profile \<noteq> model_dump current_profile
      then bindM (logger (LogInfo ''Syncing profile changes''))
             (\<lambda>_. bindM (update_profile e current_profile) (\<lambda>_. returnM True))
      else returnM False)"

definition delete_profile :: "env \<Rightarrow> pystr \<Rightarrow> unit M" where
  "delete_profile e uid w =
     (if index w = None then returnM () w
      else tryM
        (bindM (logger (LogWarning ''DELETING PROFILE''))
           (\<lambda>_. bindM (index_delete_ids e UserProfiles [uid])
                   (\<lambda>_. logger (LogInfo ''Profile deleted successfully''))))
        (\<lambda>x. logger (LogError ''Failed to delete profile'')) w)"

section \<open>\<open>memory/memory_manager.py\<close>\<close>

definition clear_chat_history :: "env \<Rightarrow> pystr \<Rightarrow> bool M" where
  "clear_chat_history e uid w =
     (let w1 = w\<lparr>active_context := (active_context w)(uid := None)\<rparr>
      in if index w1 = None then returnM False w1
         else tryM
           (bindM (index_delete_filter e MemoryStore
                     [(''user_id'', uid), (''type'', py ''episodic'')])
              (\<lambda>_. returnM True))
           (\<lambda>x. bindM (logger (LogError ''Failed to clear episodic history''))
                   (\<lambda>_. returnM False)) w1)"

text \<open>The \<open>if index:\<close> block of \<open>reset_memory\<close>; its value is the local \<open>success\<close>.\<close>

definition reset_vectors :: "env \<Rightarrow> pystr \<Rightarrow> bool M" where
  "reset_vectors e uid w =
     (if index w \<noteq> None
      then tryM
        (bindM (index_delete_filter e MemoryStore [(''user_id'', uid)])
           (\<lambda>_. bindM (logger (LogWarning ''Full memory reset performed''))
                   (\<lambda>_. returnM True)))
        (\<lambda>x. bindM (logger (LogError ''Failed to reset memory vectors''))
                (\<lambda>_. returnM False)) w
      else returnM True w)"

definition reset_memory :: "env \<Rightarrow> pystr \<Rightarrow> bool M" where
  "reset_memory e uid w =
     (let w1 = w\<lparr>active_context := (active_context w)(uid := None)\<rparr>
      in bindM (reset_vectors e uid) (\<lambda>success.
         bindM (delete_profile e uid) (\<lambda>_.
         bindM (tryM (liftM (case clear_cache e of None \<Rightarrow> Inr () | Some x \<Rightarrow> Inl x))
                  (\<lambda>x. logger (LogError ''Failed to clear semantic cache during reset'')))
           (\<lambda>_. returnM success))) w1)"

text \<open>\<open>uuid.uuid4()\<close> and \<open>time.time()\<close> read the counter, which then moves on.\<close>

definition tick :: "nat M" where
  "tick w = (Inr (clock w), w\<lparr>clock := Suc (clock w)\<rparr>)"

definition memory_vec :: "env \<Rightarrow> nat \<Rightarrow> pystr \<Rightarrow> MemoryType \<Rightarrow> pydict \<Rightarrow> real list \<Rightarrow> vec" where
  "memory_vec e n text mt safe_meta vector =
     \<lparr>vec_id = uuid4 e n, vec_values = vector,
      vec_metadata =
        [(''text'', text), (''type'', MemoryType_value mt), (''timestamp'', time_str e n),
         (''attributes_json'', json_dumps e safe_meta)]
        @ (case map_of safe_meta ''user_id'' of None \<Rightarrow> [] | Some u \<Rightarrow> [(''user_id'', u)])\<rparr>"

definition add_memory :: "env \<Rightarrow> pystr \<Rightarrow> MemoryType \<Rightarrow> pydict option \<Rightarrow> pystr option M" where
  "add_memory e text mt meta w =
     (if index w = None \<or> text = [] then returnM None w
      else
        let safe_meta = (case meta of None \<Rightarrow> [] | Some m \<Rightarrow> m)
        in if mt \<in> set [FACT, EPISODIC] \<and> map_of safe_meta ''user_id'' = None
           then bindM (logger (LogError ''Attempted to store without user_id''))
                  (\<lambda>_. returnM None) w
           else tryM
             (bindM (liftM (get_embedding e text)) (\<lambda>vector.
                case vector of
                  None \<Rightarrow> returnM None
                | Some v \<Rightarrow>
                    if v = [] then returnM None
                    else bindM tick (\<lambda>n.
                         bindM (index_upsert e MemoryStore
                                  (memory_vec e n text mt safe_meta v))
                           (\<lambda>_. returnM (Some (uuid4 e n))))))
             (\<lambda>x. bindM (logger (LogError ''Upsert failed'')) (\<lambda>_. returnM None)) w)"

definition item_of_match :: "env \<Rightarrow> scored \<Rightarrow> exn + MemoryItem" where
  "item_of_match e m =
     (let meta = match_metadata m
      in case safe_json_load e (Some (dict_get meta ''attributes_json'' (py ''{}''))) of
           Inl x \<Rightarrow> Inl x
         | Inr loaded \<Rightarrow>
             (let attr = (case loaded of None \<Rightarrow> [] | Some a \<Rightarrow> a)
              in case MemoryType_of (dict_get meta ''type'' (py ''fact'')) of
                   Inl x \<Rightarrow> Inl x
                 | Inr mt \<Rightarrow>
                     Inr \<lparr>item_id = match_id m, item_content = dict_get meta ''text'' [],
                          memory_type = mt, timestamp = dict_get meta ''timestamp'' [],
                          item_metadata = attr\<rparr>))"

text \<open>The loop over the matches: the first exception ends it.\<close>

fun collect_memories :: "env \<Rightarrow> pyfloat \<Rightarrow> scored list \<Rightarrow> exn + MemoryItem list" where
  "collect_memories e thr [] = Inr []"
| "collect_memories e thr (m # ms) =
     (if float_lt (match_score m) thr then collect_memories e thr ms
      else case item_of_match e m of
             Inl x \<Rightarrow> Inl x
           | Inr it \<Rightarrow>
               (case collect_memories e thr ms of
                  Inl x \<Rightarrow> Inl x
                | Inr its \<Rightarrow> Inr (it # its)))"

definition query_filter :: "pystr \<Rightarrow> MemoryType option \<Rightarrow> meta_filter" where
  "query_filter uid mt =
     (''user_id'', uid) # (case mt of None \<Rightarrow> [] | Some t \<Rightarrow> [(''type'', MemoryType_value t)])"

definition retrieve_relevant ::
  "env \<Rightarrow> pystr \<Rightarrow> pystr \<Rightarrow> nat \<Rightarrow> MemoryType option \<Rightarrow> pyfloat \<Rightarrow> MemoryItem list M" where
  "retrieve_relevant e query uid limit mt score_threshold w =
     (if index w = None \<or> query = [] then returnM [] w
      else tryM
        (bindM (liftM (get_embedding e query)) (\<lambda>query_vector.
           case query_vector of
             None \<Rightarrow> returnM []
           | Some qv \<Rightarrow>
               if qv = [] then returnM []
               else bindM (index_query e MemoryStore qv limit (query_filter uid mt))
                      (\<lambda>matches. liftM (collect_memories e score_threshold matches))))
        (\<lambda>x. bindM (logger (LogError ''Retrieval error'')) (\<lambda>_. returnM [])) w)"

text \<open>Step 1 of \<open>process_realtime_interaction\<close>: append both turns, keep the last 20.\<close>

definition update_short_term_context :: "pystr \<Rightarrow> pystr \<Rightarrow> pystr \<Rightarrow> world \<Rightarrow> world" where
  "update_short_term_context uid user_msg agent_msg w =
     (let h0 = (case active_context w uid of None \<Rightarrow> [] | Some h \<Rightarrow> h);
          h1 = h0 @ [\<lparr>role = ''user'', content = user_msg\<rparr>];
          h2 = h1 @ [\<lparr>role = ''agent'', content = agent_msg\<rparr>];
          h3 = (if length h2 > 20 then drop (length h2 - 20) h2 else h2)
      in w\<lparr>active_context := (active_context w)(uid \<mapsto> h3)\<rparr>)"

text \<open>Step 2: the profile delta, merged into the profile and persisted.\<close>

definition analyze_profile_delta :: "env \<Rightarrow> pystr \<Rightarrow> pystr \<Rightarrow> pystr \<Rightarrow> unit M" where
  "analyze_profile_delta e uid user_msg agent_msg =
     bindM (get_profile e uid) (\<lambda>current_profile.
     bindM (liftM (analyze_interaction_delta e current_profile user_msg agent_msg)) (\<lambda>updates.
       case updates of
         None \<Rightarrow> returnM ()
       | Some u \<Rightarrow>
           if u \<noteq> []
           then bindM (liftM (model_validate e (dict_update (model_dump current_profile) u)))
                  (\<lambda>new_profile.
                     bindM (sync_if_changed e current_profile new_profile) (\<lambda>_. returnM ()))
           else returnM ()))"

text \<open>Step 3: the exchange goes to the episodic archive when it is long enough.\<close>

definition episodic_content :: "pystr \<Rightarrow> pystr \<Rightarrow> pystr" where
  "episodic_content user_msg agent_msg = py ''User: '' @ user_msg @ [10] @ py ''Agent: '' @ agent_msg"

definition episodic_archival :: "env \<Rightarrow> pystr \<Rightarrow> pystr \<Rightarrow> pystr \<Rightarrow> unit M" where
  "episodic_archival e uid user_msg agent_msg =
     (if length user_msg + length agent_msg > 50
      then bindM (add_memory e (episodic_content user_msg agent_msg) EPISODIC
                    (Some [(''user_id'', uid)]))
             (\<lambda>_. returnM ())
      else returnM ())"

definition process_realtime_interaction :: "env \<Rightarrow> pystr \<Rightarrow> pystr \<Rightarrow> pystr \<Rightarrow> unit M" where
  "process_realtime_interaction e uid user_msg agent_msg w =
     (if user_msg = [] \<or> agent_msg = [] then returnM () w
      else tryM
        (bindM (analyze_profile_delta e uid user_msg agent_msg)
           (\<lambda>_. episodic_archival e uid user_msg agent_msg))
        (\<lambda>x. logger (LogError ''Real-time processing failed''))
        (update_short_term_context uid user_msg agent_msg w))"

text \<open>
  Any number of interactions, each with its user, its messages and the collaborators'
  behaviour at that time.
\<close>

fun run_interactions :: "(env \<times> pystr \<times> pystr \<times> pystr) list \<Rightarrow> world \<Rightarrow> world" where
  "run_interactions [] w = w"
| "run_interactions ((e, uid, user_msg, agent_msg) # cs) w =
     run_interactions cs (snd (process_realtime_interaction e uid user_msg agent_msg w))"

text \<open>The loop of \<open>consolidate_session\<close> over the final facts.\<close>

fun add_facts :: "env \<Rightarrow> pystr \<Rightarrow> pystr list \<Rightarrow> unit M" where
  "add_facts e uid [] = returnM ()"
| "add_facts e uid (fact_text # facts) =
     bindM (add_memory e fact_text FACT (Some [(''user_id'', uid)])) (\<lambda>_. add_facts e uid facts)"

definition replace_facts :: "env \<Rightarrow> pystr \<Rightarrow> pystr list \<Rightarrow> unit M" where
  "replace_facts e uid final_facts w =
     (if index w \<noteq> None
      then bindM (index_delete_filter e MemoryStore [(''user_id'', uid), (''type'', py ''fact'')])
             (\<lambda>_. bindM (add_facts e uid final_facts)
                     (\<lambda>_. logger (LogInfo ''Consolidated facts''))) w
      else returnM () w)"

definition consolidate_session :: "env \<Rightarrow> pystr \<Rightarrow> pystr list \<Rightarrow> unit M" where
  "consolidate_session e uid conversation_history w =
     (if conversation_history = [] then returnM () w
      else tryM
        (bindM (liftM (summarize e conversation_history)) (\<lambda>key_facts.
           if key_facts = [] then returnM ()
           else bindM (retrieve_relevant e (py ''general user facts'') uid 50 (Some FACT) (Num 0))
                  (\<lambda>existing_memories.
                bindM (liftM (deduplicate_facts e (map item_content existing_memories) key_facts))
                  (\<lambda>final_facts. replace_facts e uid final_facts))))
        (\<lambda>x. logger (LogError ''Consolidation failed'')) w)"


text \<open>
  The spec's words for \<open>sync_if_changed\<close>: some field of the old profile differs from the
  same field of the new one.
\<close>

definition fields_differ :: "UserProfileSchema \<Rightarrow> UserProfileSchema \<Rightarrow> bool" where
  "fields_differ p q \<longleftrightarrow>
     user_id p \<noteq> user_id q \<or> risk_tolerance p \<noteq> risk_tolerance q \<or>
     explanation_depth p \<noteq> explanation_depth q \<or> style_preference p \<noteq> style_preference q"

section \<open>Observations and sample data\<close>

text \<open>What the index holds in each namespace (nothing when there is no index), and the size of a user's short-term buffer.\<close>

definition buffer_length :: "world \<Rightarrow> pystr \<Rightarrow> nat" where
  "buffer_length w uid = (case active_context w uid of None \<Rightarrow> 0 | Some h \<Rightarrow> length h)"

definition stored_memories :: "world \<Rightarrow> vec list" where
  "stored_memories w = (case index w of None \<Rightarrow> [] | Some ix \<Rightarrow> memory_store ix)"

definition stored_profiles :: "world \<Rightarrow> vec list" where
  "stored_profiles w = (case index w of None \<Rightarrow> [] | Some ix \<Rightarrow> user_profiles ix)"

text \<open>
  The number of error lines in the log and how far the count of raised exceptions is ahead
  of it, the profile record a lookup by id finds, whether the profile document of a record fails to
  load (the JSON helper raises or returns nothing, or the schema rejects the data), and the
  two kinds of memory records the deletions tell apart.
\<close>

fun is_error :: "log_entry \<Rightarrow> bool" where
  "is_error (LogError s) = True"
| "is_error l = False"

definition errors_logged :: "world \<Rightarrow> nat" where
  "errors_logged w = length (filter is_error (logs w))"

definition unlogged :: "world \<Rightarrow> int" where
  "unlogged w = int (raised w) - int (errors_logged w)"

definition stored_profile_record :: "world \<Rightarrow> pystr \<Rightarrow> vec option" where
  "stored_profile_record w uid = find (\<lambda>v. vec_id v = uid) (stored_profiles w)"

definition fails_to_parse :: "env \<Rightarrow> vec \<Rightarrow> bool" where
  "fails_to_parse e v =
     (case safe_json_load e (map_of (vec_metadata v) ''profile_data'') of
        Inl x \<Rightarrow> True
      | Inr None \<Rightarrow> True
      | Inr (Some d) \<Rightarrow> d = [] \<or> isl (model_validate e d))"

definition episodic_of_user :: "pystr \<Rightarrow> vec \<Rightarrow> bool" where
  "episodic_of_user uid v \<longleftrightarrow>
     map_of (vec_metadata v) ''user_id'' = Some uid
     \<and> map_of (vec_metadata v) ''type'' = Some (py ''episodic'')"

definition fact_typed :: "vec \<Rightarrow> bool" where
  "fact_typed v \<longleftrightarrow> map_of (vec_metadata v) ''type'' = Some (py ''fact'')"

text \<open>
  A backend where every collaborator answers, two users, and a world that holds memories of
  both and the profile of one. The JSON documents are stand-ins: the loader knows the one
  document stored here.
\<close>

definition alice :: pystr where "alice = py ''alice''"
definition bob :: pystr where "bob = py ''bob''"

definition alice_profile :: UserProfileSchema where
  "alice_profile =
     \<lparr>user_id = alice, risk_tolerance = py ''high'', explanation_depth = py ''technical'',
      style_preference = py ''casual''\<rparr>"

definition profile_of_dict :: "pydict \<Rightarrow> UserProfileSchema" where
  "profile_of_dict d =
     \<lparr>user_id = dict_get d ''user_id'' [], risk_tolerance = dict_get d ''risk_tolerance'' [],
      explanation_depth = dict_get d ''explanation_depth'' [],
      style_preference = dict_get d ''style_preference'' []\<rparr>"

definition healthy_env :: env where
  "healthy_env =
     \<lparr>get_embedding = (\<lambda>t. Inr (Some [1])),
      similarity = (\<lambda>q v. case v of [] \<Rightarrow> Num 0 | x # _ \<Rightarrow> Num x),
      index_raises = (\<lambda>c. None),
      uuid4 = (\<lambda>n. py ''mem-'' @ [n]),
      time_str = (\<lambda>n. [n]),
      json_dumps = (\<lambda>d. py ''attributes''),
      safe_json_load = (\<lambda>s. if s = Some (py ''alice-profile-json'')
                                then Inr (Some (model_dump alice_profile)) else Inr None),
      model_validate = (\<lambda>d. Inr (profile_of_dict d)),
      model_dump_json = (\<lambda>p. py ''alice-profile-json''),
      default_risk_tolerance = py ''medium'',
      default_explanation_depth = py ''detailed'',
      default_style_preference = py ''formal'',
      EMBEDDING_DIMENSION = Some 2,
      analyze_interaction_delta = (\<lambda>p u a. Inr None),
      summarize = (\<lambda>h. Inr []),
      deduplicate_facts = (\<lambda>old new. Inr new),
      clear_cache = None\<rparr>"

definition fresh_world :: world where
  "fresh_world =
     \<lparr>index = Some \<lparr>memory_store = [], user_profiles = []\<rparr>, active_context = Map.empty,
      logs = [], clock = 0, raised = 0\<rparr>"

definition memory_of :: "pystr \<Rightarrow> pystr \<Rightarrow> string \<Rightarrow> real \<Rightarrow> vec" where
  "memory_of i uid ty s =
     \<lparr>vec_id = i, vec_values = [s],
      vec_metadata = [(''text'', i), (''type'', py ty), (''user_id'', uid)]\<rparr>"

definition alice_record :: vec where
  "alice_record =
     \<lparr>vec_id = alice, vec_values = [1, 0],
      vec_metadata = [(''profile_data'', py ''alice-profile-json''), (''type'', py ''user_profile'')]\<rparr>"

definition sample_world :: world where
  "sample_world =
     \<lparr>index = Some
        \<lparr>memory_store =
           [memory_of (py ''a1'') alice ''fact'' (9/10),
            memory_of (py ''a2'') alice ''episodic'' (8/10),
            memory_of (py ''a3'') alice ''fact'' (1/10),
            memory_of (py ''b1'') bob ''fact'' (95/100),
            memory_of (py ''b2'') bob ''episodic'' (9/10)],
         user_profiles = [alice_record]\<rparr>,
      active_context = [alice \<mapsto> [\<lparr>role = ''user'', content = py ''hi''\<rparr>]],
      logs = [], clock = 0, raised = 0\<rparr>"

text \<open>The item \<open>retrieve_relevant\<close> builds from a sample memory record.\<close>

definition item_of :: "pystr \<Rightarrow> MemoryType \<Rightarrow> MemoryItem" where
  "item_of i t =
     \<lparr>item_id = i, item_content = i, memory_type = t, timestamp = [], item_metadata = []\<rparr>"

text \<open>
  Backends with one failing collaborator each (the last one also has the summarizer report
  a new risk tolerance, which gives the profile below), a message of 30 characters, and a
  world whose stored profile document does not load.
\<close>

definition profile_delete_fails_env :: env where
  "profile_delete_fails_env =
     healthy_env\<lparr>index_raises :=
       (\<lambda>c. if c = DeleteIds UserProfiles [alice] then Some BackendError else None)\<rparr>"

definition summarizer_fails_env :: env where
  "summarizer_fails_env =
     healthy_env\<lparr>analyze_interaction_delta := (\<lambda>p u a. Inl SummarizerError)\<rparr>"

definition embedding_fails_env :: env where
  "embedding_fails_env = healthy_env\<lparr>get_embedding := (\<lambda>t. Inl EmbeddingError)\<rparr>"

definition upsert_refused_env :: env where
  "upsert_refused_env =
     healthy_env\<lparr>analyze_interaction_delta :=
                   (\<lambda>p u a. Inr (Some [(''risk_tolerance'', py ''low'')])),
                 index_raises :=
                   (\<lambda>c. case c of Upsert MemoryStore v \<Rightarrow> Some BackendError | _ \<Rightarrow> None)\<rparr>"

definition alice_low_profile :: UserProfileSchema where
  "alice_low_profile =
     \<lparr>user_id = alice, risk_tolerance = py ''low'', explanation_depth = py ''detailed'',
      style_preference = py ''formal''\<rparr>"

definition long_msg :: pystr where
  "long_msg = replicate 30 97"

definition garbled_record :: vec where
  "garbled_record =
     \<lparr>vec_id = alice, vec_values = [1, 0], vec_metadata = [(''profile_data'', py ''not json'')]\<rparr>"

definition garbled_world :: world where
  "garbled_world =
     \<lparr>index = Some \<lparr>memory_store = [], user_profiles = [garbled_record]\<rparr>,
      active_context = Map.empty, logs = [], clock = 0, raised = 0\<rparr>"


section \<open>Basic facts\<close>

lemma bindM_sel:
  "bindM m k w = (case fst (m w) of Inl x \<Rightarrow> (Inl x, snd (m w)) | Inr y \<Rightarrow> k y (snd (m w)))"
  by (simp add: bindM_def split: prod.splits sum.splits)

lemma tryM_sel:
  "tryM m h w = (case fst (m w) of Inl x \<Rightarrow> h x (snd (m w)) | Inr y \<Rightarrow> (Inr y, snd (m w)))"
  by (simp add: tryM_def split: prod.splits sum.splits)

lemmas monad_defs = returnM_def bindM_sel tryM_sel liftM_def raiseM_def logger_def
lemmas index_defs = index_call_def index_upsert_def index_fetch_def index_delete_ids_def
  index_delete_filter_def index_query_def
lemmas store_defs = stored_memories_def stored_profiles_def

lemma stored_logs_update [simp]:
  "stored_memories (w\<lparr>logs := l\<rparr>) = stored_memories w"
  "stored_profiles (w\<lparr>logs := l\<rparr>) = stored_profiles w"
  "stored_memories (w\<lparr>active_context := c\<rparr>) = stored_memories w"
  "stored_profiles (w\<lparr>active_context := c\<rparr>) = stored_profiles w"
  "stored_memories (w\<lparr>clock := n\<rparr>) = stored_memories w"
  "stored_profiles (w\<lparr>clock := n\<rparr>) = stored_profiles w"
  "stored_memories (w\<lparr>raised := n\<rparr>) = stored_memories w"
  "stored_profiles (w\<lparr>raised := n\<rparr>) = stored_profiles w"
  by (simp_all add: store_defs)

subsection \<open>get_profile\<close>

lemma get_profile_never_raises: "\<exists>p. fst (get_profile e uid w) = Inr p"
  by (auto simp: get_profile_def monad_defs split: option.splits sum.splits)

lemma get_profile_frame [simp]:
  "active_context (snd (get_profile e uid w)) = active_context w"
  "index (snd (get_profile e uid w)) = index w"
  "clock (snd (get_profile e uid w)) = clock w"
  "stored_memories (snd (get_profile e uid w)) = stored_memories w"
  "stored_profiles (snd (get_profile e uid w)) = stored_profiles w"
  by (auto simp: get_profile_def monad_defs index_defs store_defs split: option.splits sum.splits)

subsection \<open>update_profile, sync_if_changed, delete_profile\<close>

lemma update_profile_never_raises [simp]: "fst (update_profile e p w) = Inr ()"
  by (auto simp: update_profile_def monad_defs split: option.splits sum.splits)

lemma update_profile_frame [simp]:
  "active_context (snd (update_profile e p w)) = active_context w"
  "stored_memories (snd (update_profile e p w)) = stored_memories w"
  "clock (snd (update_profile e p w)) = clock w"
  "(index (snd (update_profile e p w)) = None) = (index w = None)"
  by (auto simp: update_profile_def monad_defs index_defs store_defs split: option.splits sum.splits)

lemma sync_if_changed_never_raises: "\<exists>b. fst (sync_if_changed e p q w) = Inr b"
  by (auto simp: sync_if_changed_def monad_defs split: option.splits sum.splits)

lemma sync_if_changed_frame [simp]:
  "active_context (snd (sync_if_changed e p q w)) = active_context w"
  "stored_memories (snd (sync_if_changed e p q w)) = stored_memories w"
  "clock (snd (sync_if_changed e p q w)) = clock w"
  "(index (snd (sync_if_changed e p q w)) = None) = (index w = None)"
  by (auto simp: sync_if_changed_def monad_defs split: option.splits sum.splits)

lemma delete_profile_never_raises [simp]: "fst (delete_profile e uid w) = Inr ()"
  by (auto simp: delete_profile_def monad_defs split: option.splits sum.splits)

lemma delete_profile_frame [simp]:
  "active_context (snd (delete_profile e uid w)) = active_context w"
  "stored_memories (snd (delete_profile e uid w)) = stored_memories w"
  "(index (snd (delete_profile e uid w)) = None) = (index w = None)"
  by (auto simp: delete_profile_def monad_defs index_defs store_defs split: option.splits sum.splits)

subsection \<open>add_memory\<close>

lemma add_memory_never_raises: "\<exists>r. fst (add_memory e t mt m w) = Inr r"
  by (auto simp: add_memory_def monad_defs Let_def split: option.splits sum.splits)

lemma add_memory_frame [simp]:
  "active_context (snd (add_memory e t mt m w)) = active_context w"
  "stored_profiles (snd (add_memory e t mt m w)) = stored_profiles w"
  "(index (snd (add_memory e t mt m w)) = None) = (index w = None)"
  by (auto simp: add_memory_def monad_defs index_defs tick_def Let_def store_defs
      split: option.splits sum.splits)

subsection \<open>The steps of process_realtime_interaction\<close>

lemma analyze_profile_delta_frame [simp]:
  "active_context (snd (analyze_profile_delta e uid um am w)) = active_context w"
  "stored_memories (snd (analyze_profile_delta e uid um am w)) = stored_memories w"
  "clock (snd (analyze_profile_delta e uid um am w)) = clock w"
  "(index (snd (analyze_profile_delta e uid um am w)) = None) = (index w = None)"
  by (auto simp: analyze_profile_delta_def monad_defs split: option.splits sum.splits)

lemma episodic_archival_never_raises [simp]: "fst (episodic_archival e uid um am w) = Inr ()"
  using add_memory_never_raises [of e "episodic_content um am" EPISODIC "Some [(''user_id'', uid)]" w]
  by (auto simp: episodic_archival_def monad_defs split: option.splits sum.splits)

lemma episodic_archival_frame [simp]:
  "active_context (snd (episodic_archival e uid um am w)) = active_context w"
  "stored_profiles (snd (episodic_archival e uid um am w)) = stored_profiles w"
  "(index (snd (episodic_archival e uid um am w)) = None) = (index w = None)"
  by (auto simp: episodic_archival_def monad_defs split: option.splits sum.splits)

lemma update_short_term_context_frame [simp]:
  "index (update_short_term_context uid um am w) = index w"
  "logs (update_short_term_context uid um am w) = logs w"
  "clock (update_short_term_context uid um am w) = clock w"
  "stored_memories (update_short_term_context uid um am w) = stored_memories w"
  "stored_profiles (update_short_term_context uid um am w) = stored_profiles w"
  by (simp_all add: update_short_term_context_def Let_def store_defs)

lemma process_realtime_interaction_ctx:
  "active_context (snd (process_realtime_interaction e uid um am w)) =
     (if um = [] \<or> am = [] then active_context w
      else active_context (update_short_term_context uid um am w))"
  by (auto simp: process_realtime_interaction_def monad_defs split: option.splits sum.splits)

lemma py_eq_iff [simp]: "py a = py b \<longleftrightarrow> a = b"
  by (simp add: py_def inj_map_eq_map inj_of_char)

lemma py_empty_iff [simp]: "py s = [] \<longleftrightarrow> s = []"
  by (simp add: py_def)

lemmas fixture_defs = alice_def bob_def alice_profile_def profile_of_dict_def healthy_env_def
  fresh_world_def memory_of_def alice_record_def sample_world_def

section \<open>The claims\<close>

subsection \<open>C1: facts and episodes need a user id\<close>

text \<open>
  C1. A call of \<open>add_memory\<close> with memory type FACT or EPISODIC whose metadata has no key
  \<open>user_id\<close> (or that passes no metadata) returns \<open>None\<close>, and the index holds afterwards
  what it held before: nothing is upserted.
\<close>

theorem add_memory_requires_user_id:
  assumes "mt = FACT \<or> mt = EPISODIC"
    and "\<And>m. meta = Some m \<Longrightarrow> ''user_id'' \<notin> fst ` set m"
  shows "fst (add_memory e text mt meta w) = Inr None
         \<and> index (snd (add_memory e text mt meta w)) = index w"
proof (cases meta)
  case None
  then show ?thesis using assms(1) by (auto simp: add_memory_def monad_defs)
next
  case (Some m)
  then have "map_of m ''user_id'' = None" using assms(2) by (simp add: map_of_eq_None_iff)
  then show ?thesis using Some assms(1) by (auto simp: add_memory_def monad_defs)
qed

theorem add_memory_requires_user_id_witness:
  "fst (add_memory healthy_env (py ''likes bonds'') FACT (Some [(''source'', py ''chat'')]) fresh_world)
     = Inr None
   \<and> index (snd (add_memory healthy_env (py ''likes bonds'') FACT (Some [(''source'', py ''chat'')])
        fresh_world)) = index fresh_world
   \<and> fst (add_memory healthy_env (py ''likes bonds'') EPISODIC None fresh_world) = Inr None"
  using add_memory_requires_user_id [of FACT "Some [(''source'', py ''chat'')]" healthy_env
      "py ''likes bonds''" fresh_world]
    add_memory_requires_user_id [of EPISODIC None healthy_env "py ''likes bonds''" fresh_world]
  by simp

subsection \<open>C2: retrieval is scoped to the user and to the score threshold\<close>

lemma float_not_lt_ge:
  "a \<noteq> NaN \<Longrightarrow> b \<noteq> NaN \<Longrightarrow> \<not> float_lt a b \<Longrightarrow> float_ge a b"
  by (cases a; cases b) auto

lemma float_ge_not_lt: "float_ge a b \<Longrightarrow> \<not> float_lt a b"
  by (cases a; cases b) auto

lemma set_insert_by_score [simp]: "set (insert_by_score m ms) = insert m (set ms)"
  by (induction ms) auto

lemma set_sort_by_score [simp]: "set (sort_by_score ms) = set ms"
  by (induction ms) (simp_all add: sort_by_score_def)

lemma collect_memories_sound:
  assumes "collect_memories e thr ms = Inr items" and "it \<in> set items"
  shows "\<exists>m \<in> set ms. \<not> float_lt (match_score m) thr \<and> item_of_match e m = Inr it"
  using assms
proof (induction ms arbitrary: items)
  case Nil
  then show ?case by simp
next
  case (Cons m ms)
  show ?case
  proof (cases "float_lt (match_score m) thr")
    case True
    then show ?thesis using Cons by auto
  next
    case False
    then obtain x xs where x: "item_of_match e m = Inr x"
      and xs: "collect_memories e thr ms = Inr xs" and items: "items = x # xs"
      using Cons.prems(1) by (auto split: sum.splits)
    show ?thesis
    proof (cases "it = x")
      case True
      then show ?thesis using False x by auto
    next
      case False
      then have "it \<in> set xs" using Cons.prems(2) items by simp
      then show ?thesis using Cons.IH [OF xs] by auto
    qed
  qed
qed

lemma item_of_match_id: "item_of_match e m = Inr it \<Longrightarrow> item_id it = match_id m"
  by (auto simp: item_of_match_def Let_def split: sum.splits)

lemma retrieve_relevant_never_raises: "\<exists>items. fst (retrieve_relevant e q uid limit mt thr w) = Inr items"
  by (auto simp: retrieve_relevant_def monad_defs split: option.splits sum.splits)

lemma retrieve_relevant_cases:
  assumes "fst (retrieve_relevant e q uid limit mt thr w) = Inr items" and "items \<noteq> []"
  shows "\<exists>qv. get_embedding e q = Inr (Some qv)
           \<and> collect_memories e thr
                (take limit (sort_by_score
                   (map (to_match e qv) (filter (matches_filter (query_filter uid mt))
                      (stored_memories w))))) = Inr items"
  using assms
  by (auto simp: retrieve_relevant_def monad_defs index_defs store_defs
      split: if_splits option.splits sum.splits)

lemma matches_query_filter:
  "matches_filter (query_filter uid mt) v \<Longrightarrow>
   map_of (vec_metadata v) ''user_id'' = Some uid
   \<and> (\<forall>t. mt = Some t \<longrightarrow> map_of (vec_metadata v) ''type'' = Some (MemoryType_value t))"
  by (auto simp: matches_filter_def query_filter_def split: option.splits)

lemma retrieve_nan_sample:
  "fst (retrieve_relevant healthy_env (py ''bonds'') alice 5 None NaN sample_world)
     = Inr [item_of (py ''a1'') FACT, item_of (py ''a2'') EPISODIC, item_of (py ''a3'') FACT]"
  by (simp add: retrieve_relevant_def monad_defs index_defs fixture_defs query_filter_def
      matches_filter_def to_match_def item_of_match_def dict_get_def MemoryType_of_def item_of_def
      sort_by_score_def)

text \<open>
  C2 as stated fails in its second part. The code keeps a match unless
  \<open>match.score < score_threshold\<close>, a comparison of floats: with the threshold NaN no match
  is below it, so alice's three memories come back although no score is \<open>>=\<close> NaN. Here the
  third item, its record in the store, and that record's score against the query.
\<close>

theorem retrieve_relevant_threshold_counterexample:
  "item_of (py ''a3'') FACT
     \<in> set (projr (fst (retrieve_relevant healthy_env (py ''bonds'') alice 5 None NaN sample_world)))
   \<and> memory_of (py ''a3'') alice ''fact'' (1/10) \<in> set (stored_memories sample_world)
   \<and> item_of_match healthy_env
        (to_match healthy_env [1] (memory_of (py ''a3'') alice ''fact'' (1/10)))
       = Inr (item_of (py ''a3'') FACT)
   \<and> similarity healthy_env [1] (vec_values (memory_of (py ''a3'') alice ''fact'' (1/10))) = Num (1/10)
   \<and> \<not> float_ge (Num (1/10)) NaN"
  by (simp add: retrieve_nan_sample)
     (simp add: fixture_defs store_defs to_match_def item_of_match_def dict_get_def
        MemoryType_of_def item_of_def)

text \<open>
  C2, amended. Every item that \<open>retrieve_relevant\<close> returns was built from a record stored in
  the memory namespace whose id is the item's id and whose metadata has \<open>user_id\<close> equal to the
  user id asked for (and the type asked for, when one was given). The record's match score
  against the query's embedding is not below the score threshold in the comparison of floats
  the code makes; it is greater than or equal to the threshold whenever neither the score
  nor the threshold is NaN.
\<close>

theorem retrieve_relevant_scoped:
  assumes "fst (retrieve_relevant e query uid limit mt score_threshold w) = Inr items"
    and "it \<in> set items"
  shows "\<exists>v \<in> set (stored_memories w). \<exists>qv.
           get_embedding e query = Inr (Some qv)
           \<and> item_of_match e (to_match e qv v) = Inr it
           \<and> vec_id v = item_id it
           \<and> map_of (vec_metadata v) ''user_id'' = Some uid
           \<and> (\<forall>t. mt = Some t \<longrightarrow> map_of (vec_metadata v) ''type'' = Some (MemoryType_value t))
           \<and> \<not> float_lt (similarity e qv (vec_values v)) score_threshold
           \<and> (similarity e qv (vec_values v) \<noteq> NaN \<and> score_threshold \<noteq> NaN
                \<longrightarrow> float_ge (similarity e qv (vec_values v)) score_threshold)"
proof -
  have "items \<noteq> []" using assms(2) by auto
  from retrieve_relevant_cases [OF assms(1) this]
  obtain qv where qv: "get_embedding e query = Inr (Some qv)"
    and c: "collect_memories e score_threshold
                (take limit (sort_by_score
                   (map (to_match e qv) (filter (matches_filter (query_filter uid mt))
                      (stored_memories w))))) = Inr items"
    by blast
  from collect_memories_sound [OF c assms(2)]
  obtain m where m: "m \<in> set (take limit (sort_by_score
                   (map (to_match e qv) (filter (matches_filter (query_filter uid mt))
                      (stored_memories w)))))"
    and s: "\<not> float_lt (match_score m) score_threshold" and i: "item_of_match e m = Inr it"
    by blast
  from m have "m \<in> set (sort_by_score (map (to_match e qv)
                 (filter (matches_filter (query_filter uid mt)) (stored_memories w))))"
    by (rule in_set_takeD)
  then obtain v where v: "v \<in> set (stored_memories w)"
    and f: "matches_filter (query_filter uid mt) v" and mv: "m = to_match e qv v"
    by auto
  have id: "vec_id v = item_id it"
    using item_of_match_id [OF i] mv by (simp add: to_match_def)
  have lt: "\<not> float_lt (similarity e qv (vec_values v)) score_threshold"
    using s mv by (simp add: to_match_def)
  have ge: "similarity e qv (vec_values v) \<noteq> NaN \<and> score_threshold \<noteq> NaN
            \<longrightarrow> float_ge (similarity e qv (vec_values v)) score_threshold"
    using lt float_not_lt_ge by blast
  show ?thesis
    using v qv i mv id lt ge matches_query_filter [OF f] by blast
qed

lemma retrieve_sample:
  "fst (retrieve_relevant healthy_env (py ''bonds'') alice 5 None (Num (7/10)) sample_world)
     = Inr [item_of (py ''a1'') FACT, item_of (py ''a2'') EPISODIC]"
  by (simp add: retrieve_relevant_def monad_defs index_defs fixture_defs query_filter_def
      matches_filter_def to_match_def item_of_match_def dict_get_def MemoryType_of_def item_of_def
      sort_by_score_def)

theorem retrieve_relevant_scoped_witness:
  "fst (retrieve_relevant healthy_env (py ''bonds'') alice 5 None (Num (7/10)) sample_world)
     = Inr [item_of (py ''a1'') FACT, item_of (py ''a2'') EPISODIC]
   \<and> item_of (py ''a2'') EPISODIC \<in> set [item_of (py ''a1'') FACT, item_of (py ''a2'') EPISODIC]
   \<and> (\<exists>v \<in> set (stored_memories sample_world). \<exists>qv.
           get_embedding healthy_env (py ''bonds'') = Inr (Some qv)
           \<and> item_of_match healthy_env (to_match healthy_env qv v) = Inr (item_of (py ''a2'') EPISODIC)
           \<and> vec_id v = item_id (item_of (py ''a2'') EPISODIC)
           \<and> map_of (vec_metadata v) ''user_id'' = Some alice
           \<and> \<not> float_lt (similarity healthy_env qv (vec_values v)) (Num (7/10))
           \<and> float_ge (similarity healthy_env qv (vec_values v)) (Num (7/10)))"
proof -
  have m: "item_of (py ''a2'') EPISODIC \<in> set [item_of (py ''a1'') FACT, item_of (py ''a2'') EPISODIC]"
    by simp
  obtain v qv where v: "v \<in> set (stored_memories sample_world)"
    and q: "get_embedding healthy_env (py ''bonds'') = Inr (Some qv)"
    and i: "item_of_match healthy_env (to_match healthy_env qv v) = Inr (item_of (py ''a2'') EPISODIC)"
    and d: "vec_id v = item_id (item_of (py ''a2'') EPISODIC)"
    and u: "map_of (vec_metadata v) ''user_id'' = Some alice"
    and l: "\<not> float_lt (similarity healthy_env qv (vec_values v)) (Num (7/10))"
    and g: "similarity healthy_env qv (vec_values v) \<noteq> NaN \<and> Num (7/10) \<noteq> NaN
            \<longrightarrow> float_ge (similarity healthy_env qv (vec_values v)) (Num (7/10))"
    using retrieve_relevant_scoped [OF retrieve_sample m] by blast
  have "similarity healthy_env qv (vec_values v) \<noteq> NaN"
    by (simp add: healthy_env_def split: list.splits)
  then have "float_ge (similarity healthy_env qv (vec_values v)) (Num (7/10))"
    using g by simp
  then show ?thesis
    using retrieve_sample m v q i d u l by blast
qed

subsection \<open>C4: \<open>sync_if_changed\<close> writes when a field differs\<close>

lemma model_dump_eq_iff: "model_dump p = model_dump q \<longleftrightarrow> \<not> fields_differ p q"
  by (cases p, cases q) (auto simp: model_dump_def fields_differ_def)

text \<open>
  C4. \<open>sync_if_changed old new\<close> calls \<open>update_profile new\<close>, once, exactly when some field of
  \<open>old\<close> differs from the same field of \<open>new\<close>, and returns whether it did: on profiles that
  differ the result is \<open>True\<close> and the state is that of one \<open>update_profile\<close> call (after the
  log line), on equal profiles the result is \<open>False\<close> and the state is untouched.
\<close>

theorem sync_if_changed_writes_iff_differs:
  "sync_if_changed e old new w =
     (if fields_differ old new
      then (Inr True, snd (update_profile e new (snd (logger (LogInfo ''Syncing profile changes'') w))))
      else (Inr False, w))"
  by (simp add: sync_if_changed_def model_dump_eq_iff monad_defs)

text \<open>With an index that accepts the upsert, the call writes the profile's record.\<close>

lemma update_profile_writes:
  assumes "index w = Some ix" and "index_raises e (Upsert UserProfiles (profile_vec e p)) = None"
  shows "stored_profiles (snd (update_profile e p w)) = upsert_vec (profile_vec e p) (user_profiles ix)"
  using assms by (simp add: update_profile_def monad_defs index_defs store_defs)

theorem sync_if_changed_writes_iff_differs_witness:
  "fields_differ alice_profile (alice_profile\<lparr>risk_tolerance := py ''low''\<rparr>)
   \<and> fst (sync_if_changed healthy_env alice_profile (alice_profile\<lparr>risk_tolerance := py ''low''\<rparr>)
        fresh_world) = Inr True
   \<and> stored_profiles (snd (sync_if_changed healthy_env alice_profile
        (alice_profile\<lparr>risk_tolerance := py ''low''\<rparr>) fresh_world))
       = [profile_vec healthy_env (alice_profile\<lparr>risk_tolerance := py ''low''\<rparr>)]
   \<and> \<not> fields_differ alice_profile alice_profile
   \<and> sync_if_changed healthy_env alice_profile alice_profile fresh_world = (Inr False, fresh_world)"
proof -
  have d: "fields_differ alice_profile (alice_profile\<lparr>risk_tolerance := py ''low''\<rparr>)"
    by (simp add: fields_differ_def alice_profile_def py_def)
  have n: "\<not> fields_differ alice_profile alice_profile"
    by (simp add: fields_differ_def)
  have u: "stored_profiles (snd (update_profile healthy_env (alice_profile\<lparr>risk_tolerance := py ''low''\<rparr>)
             (snd (logger (LogInfo ''Syncing profile changes'') fresh_world))))
           = [profile_vec healthy_env (alice_profile\<lparr>risk_tolerance := py ''low''\<rparr>)]"
    by (subst update_profile_writes [where ix = "\<lparr>memory_store = [], user_profiles = []\<rparr>"])
       (simp_all add: logger_def fresh_world_def healthy_env_def upsert_vec_def)
  show ?thesis
    using sync_if_changed_writes_iff_differs [of healthy_env alice_profile
        "alice_profile\<lparr>risk_tolerance := py ''low''\<rparr>" fresh_world]
      sync_if_changed_writes_iff_differs [of healthy_env alice_profile alice_profile fresh_world]
      d n u by simp
qed

subsection \<open>C10: a session without candidate facts changes nothing\<close>

text \<open>
  C10. When the history is empty, or the summarizer extracts no key facts from it,
  \<open>consolidate_session\<close> returns with the whole state as it was: no FACT vector is deleted
  and none is inserted.
\<close>

theorem consolidate_session_no_facts_no_change:
  assumes "history = [] \<or> summarize e history = Inr []"
  shows "consolidate_session e uid history w = (Inr (), w)"
  using assms by (auto simp: consolidate_session_def monad_defs)

theorem consolidate_session_no_facts_no_change_witness:
  "consolidate_session healthy_env alice [] sample_world = (Inr (), sample_world)
   \<and> summarize healthy_env [py ''hello''] = Inr []
   \<and> consolidate_session healthy_env alice [py ''hello''] sample_world = (Inr (), sample_world)"
  using consolidate_session_no_facts_no_change [of "[]" healthy_env alice sample_world]
    consolidate_session_no_facts_no_change [of "[py ''hello'']" healthy_env alice sample_world]
  by (simp add: healthy_env_def)

subsection \<open>C5: the short-term buffer holds at most 20 entries\<close>

lemma update_short_term_context_bounded:
  assumes "\<forall>u. buffer_length w u \<le> 20"
  shows "buffer_length (update_short_term_context uid um am w) u \<le> 20"
  using assms [rule_format, of u]
  by (auto simp: buffer_length_def update_short_term_context_def Let_def split: option.splits)

lemma process_realtime_interaction_bounded:
  assumes "\<forall>u. buffer_length w u \<le> 20"
  shows "\<forall>u. buffer_length (snd (process_realtime_interaction e uid um am w)) u \<le> 20"
proof
  fix u
  show "buffer_length (snd (process_realtime_interaction e uid um am w)) u \<le> 20"
    using update_short_term_context_bounded [OF assms, of uid um am u] assms [rule_format, of u]
    by (simp add: buffer_length_def process_realtime_interaction_ctx)
qed

text \<open>
  C5. From a state where no buffer holds more than 20 entries (a new manager has none), after
  any sequence of \<open>process_realtime_interaction\<close> calls, for any users and whatever the
  collaborators do, the buffer of every user holds at most 20 entries.
\<close>

theorem short_term_buffer_bounded:
  assumes "\<forall>u. buffer_length w u \<le> 20"
  shows "buffer_length (run_interactions cs w) uid \<le> 20"
  using assms
proof (induction cs arbitrary: w)
  case Nil
  then show ?case by simp
next
  case (Cons c cs)
  obtain e u um am where c: "c = (e, u, um, am)" by (cases c) auto
  show ?case
    using Cons.IH [OF process_realtime_interaction_bounded [OF Cons.prems, of e u um am]]
    by (simp add: c)
qed

theorem short_term_buffer_bounded_witness:
  "(\<forall>u. buffer_length fresh_world u \<le> 20)
   \<and> buffer_length (run_interactions (replicate 11 (healthy_env, alice, py ''hello'', py ''hi''))
        fresh_world) alice \<le> 20"
proof -
  have h: "\<forall>u. buffer_length fresh_world u \<le> 20"
    by (simp add: buffer_length_def fresh_world_def)
  show ?thesis
    using h short_term_buffer_bounded [OF h, of "replicate 11 (healthy_env, alice, py ''hello'', py ''hi'')" alice]
    by simp
qed

subsection \<open>C3: \<open>reset_memory\<close> and a failed profile deletion\<close>

text \<open>
  What \<open>reset_memory\<close> returns depends on the vector deletion alone: neither the profile
  deletion nor the cache has a say.
\<close>

lemma reset_memory_result:
  "fst (reset_memory e uid w)
     = Inr (index w = None \<or> index_raises e (DeleteFilter MemoryStore [(''user_id'', uid)]) = None)"
  by (auto simp: reset_memory_def reset_vectors_def monad_defs index_defs Let_def
      split: option.splits sum.splits)

text \<open>
  C3 says that \<open>reset_memory\<close> returns false whenever the vector deletion or the profile
  deletion failed. The code sets \<open>success\<close> to false only when the vector deletion raises;
  \<open>delete_profile\<close> swallows its exception. Here the backend refuses the profile deletion:
  \<open>reset_memory\<close> returns \<open>True\<close>, the profile record is still stored, and the failure is
  only in the log.
\<close>

theorem reset_memory_hides_profile_delete_failure:
  "fst (reset_memory profile_delete_fails_env alice sample_world) = Inr True
   \<and> stored_profiles (snd (reset_memory profile_delete_fails_env alice sample_world)) = [alice_record]
   \<and> LogError ''Failed to delete profile''
       \<in> set (logs (snd (reset_memory profile_delete_fails_env alice sample_world)))"
  by (simp add: reset_memory_def reset_vectors_def delete_profile_def monad_defs index_defs
      profile_delete_fails_env_def fixture_defs store_defs matches_filter_def)

subsection \<open>C6: \<open>get_profile\<close> never fails and falls back to the defaults\<close>

text \<open>
  C6 as stated fails in its last part: when the backend refuses the profile deletion,
  \<open>reset_memory\<close> leaves the record, and \<open>get_profile\<close> returns the stored profile, not the
  default one.
\<close>

theorem reset_then_get_profile_counterexample:
  "fst (get_profile profile_delete_fails_env alice
          (snd (reset_memory profile_delete_fails_env alice sample_world)))
     \<noteq> Inr (UserProfileSchema_new profile_delete_fails_env alice)"
  by (simp add: reset_memory_def reset_vectors_def delete_profile_def get_profile_def monad_defs index_defs
      profile_delete_fails_env_def fixture_defs store_defs matches_filter_def
      parse_fetch_response_def UserProfileSchema_new_def model_dump_def dict_get_def)

lemma fetched_record:
  "map_of (map (\<lambda>v. (vec_id v, v)) (filter (\<lambda>v. vec_id v = uid) vs)) uid
     = find (\<lambda>v. vec_id v = uid) vs"
  by (induction vs) auto

lemma get_profile_default_absent:
  assumes "index w = None \<or> index_raises e (Fetch UserProfiles [uid]) \<noteq> None
           \<or> stored_profile_record w uid = None"
  shows "fst (get_profile e uid w) = Inr (UserProfileSchema_new e uid)"
  using assms
  by (auto simp: get_profile_def monad_defs index_defs parse_fetch_response_def fetched_record
      stored_profile_record_def store_defs split: option.splits sum.splits)

lemma get_profile_default_unparsable:
  assumes "stored_profile_record w uid = Some v" and "fails_to_parse e v"
  shows "fst (get_profile e uid w) = Inr (UserProfileSchema_new e uid)"
  using assms
  by (auto simp: get_profile_def monad_defs index_defs parse_fetch_response_def fetched_record
      stored_profile_record_def store_defs fails_to_parse_def isl_def
      split: option.splits sum.splits)

lemma find_filter_neq: "find (\<lambda>v. vec_id v = uid) (filter (\<lambda>v. vec_id v \<noteq> uid) vs) = None"
  by (induction vs) auto

lemma delete_profile_removes:
  assumes "index_raises e (DeleteIds UserProfiles [uid]) = None"
  shows "stored_profile_record (snd (delete_profile e uid w)) uid = None"
  using assms
  by (auto simp: delete_profile_def monad_defs index_defs stored_profile_record_def store_defs
      find_filter_neq split: option.splits)

lemma reset_memory_profiles:
  "stored_profiles (snd (reset_memory e uid w))
     = stored_profiles (snd (delete_profile e uid (snd (reset_vectors e uid
         (w\<lparr>active_context := (active_context w)(uid := None)\<rparr>)))))"
  by (auto simp: reset_memory_def monad_defs Let_def reset_vectors_def
      split: option.splits sum.splits)

lemma reset_vectors_profiles [simp]:
  "stored_profiles (snd (reset_vectors e uid w)) = stored_profiles w"
  by (auto simp: reset_vectors_def monad_defs index_defs store_defs split: option.splits sum.splits)

lemma reset_vectors_index [simp]:
  "(index (snd (reset_vectors e uid w)) = None) = (index w = None)"
  by (simp add: reset_vectors_def monad_defs index_defs split: option.splits sum.splits)

lemma reset_memory_index:
  "(index (snd (reset_memory e uid w)) = None) = (index w = None)"
  by (simp add: reset_memory_def monad_defs Let_def split: option.splits sum.splits)

lemma stored_profile_record_cong:
  "stored_profiles w = stored_profiles w' \<Longrightarrow> stored_profile_record w uid = stored_profile_record w' uid"
  by (simp add: stored_profile_record_def)

lemma reset_then_absent:
  assumes "index_raises e (DeleteIds UserProfiles [uid]) = None"
  shows "stored_profile_record (snd (reset_memory e uid w)) uid = None"
proof -
  let ?w1 = "snd (reset_vectors e uid (w\<lparr>active_context := (active_context w)(uid := None)\<rparr>))"
  have "stored_profile_record (snd (reset_memory e uid w)) uid
        = stored_profile_record (snd (delete_profile e uid ?w1)) uid"
    by (rule stored_profile_record_cong) (rule reset_memory_profiles)
  then show ?thesis using delete_profile_removes [OF assms, of ?w1] by simp
qed

text \<open>
  C6, amended. \<open>get_profile\<close> never raises. It returns the default profile of the user id
  when there is no index, when the lookup raises, when no record is stored under the id, and
  when the stored document fails to load or to validate. After \<open>reset_memory\<close>, when there
  is no index or the backend did not refuse the profile deletion, \<open>get_profile\<close> returns the
  default profile.
\<close>

theorem get_profile_never_fails_default:
  "(\<exists>p. fst (get_profile e uid w) = Inr p)
   \<and> (index w = None \<or> index_raises e (Fetch UserProfiles [uid]) \<noteq> None
        \<or> stored_profile_record w uid = None
      \<longrightarrow> fst (get_profile e uid w) = Inr (UserProfileSchema_new e uid))
   \<and> (\<forall>v. stored_profile_record w uid = Some v \<and> fails_to_parse e v
      \<longrightarrow> fst (get_profile e uid w) = Inr (UserProfileSchema_new e uid))
   \<and> (index w = None \<or> index_raises e (DeleteIds UserProfiles [uid]) = None
      \<longrightarrow> fst (get_profile e uid (snd (reset_memory e uid w))) = Inr (UserProfileSchema_new e uid))"
proof (intro conjI impI allI)
  show "\<exists>p. fst (get_profile e uid w) = Inr p"
    by (rule get_profile_never_raises)
next
  assume "index w = None \<or> index_raises e (Fetch UserProfiles [uid]) \<noteq> None
          \<or> stored_profile_record w uid = None"
  then show "fst (get_profile e uid w) = Inr (UserProfileSchema_new e uid)"
    by (rule get_profile_default_absent)
next
  fix v
  assume "stored_profile_record w uid = Some v \<and> fails_to_parse e v"
  then show "fst (get_profile e uid w) = Inr (UserProfileSchema_new e uid)"
    using get_profile_default_unparsable [of w uid v e] by simp
next
  assume "index w = None \<or> index_raises e (DeleteIds UserProfiles [uid]) = None"
  then have "index (snd (reset_memory e uid w)) = None
             \<or> stored_profile_record (snd (reset_memory e uid w)) uid = None"
    using reset_then_absent [of e uid w] by (auto simp: reset_memory_index)
  then show "fst (get_profile e uid (snd (reset_memory e uid w))) = Inr (UserProfileSchema_new e uid)"
    using get_profile_default_absent [of "snd (reset_memory e uid w)" e uid] by blast
qed

lemma get_profile_reads_stored:
  "fst (get_profile healthy_env alice sample_world) = Inr alice_profile"
  by (simp add: get_profile_def monad_defs index_defs fixture_defs parse_fetch_response_def
      model_dump_def dict_get_def)

theorem get_profile_never_fails_default_witness:
  "stored_profile_record sample_world bob = None
   \<and> fst (get_profile healthy_env bob sample_world) = Inr (UserProfileSchema_new healthy_env bob)
   \<and> stored_profile_record garbled_world alice = Some garbled_record
   \<and> fails_to_parse healthy_env garbled_record
   \<and> fst (get_profile healthy_env alice garbled_world) = Inr (UserProfileSchema_new healthy_env alice)
   \<and> index_raises healthy_env (DeleteIds UserProfiles [alice]) = None
   \<and> fst (get_profile healthy_env alice (snd (reset_memory healthy_env alice sample_world)))
       = Inr (UserProfileSchema_new healthy_env alice)"
proof -
  have a: "stored_profile_record sample_world bob = None"
    by (simp add: stored_profile_record_def store_defs fixture_defs)
  have b: "stored_profile_record garbled_world alice = Some garbled_record"
    by (simp add: stored_profile_record_def store_defs garbled_world_def garbled_record_def)
  have c: "fails_to_parse healthy_env garbled_record"
    by (simp add: fails_to_parse_def garbled_record_def healthy_env_def)
  have d: "index_raises healthy_env (DeleteIds UserProfiles [alice]) = None"
    by (simp add: healthy_env_def)
  show ?thesis
    using a b c d get_profile_never_fails_default [of healthy_env bob sample_world]
      get_profile_never_fails_default [of healthy_env alice garbled_world]
      get_profile_never_fails_default [of healthy_env alice sample_world]
    by simp
qed

subsection \<open>C7: \<open>clear_chat_history\<close> deletes the user's episodes only\<close>

lemma clear_chat_history_never_raises: "\<exists>b. fst (clear_chat_history e uid w) = Inr b"
  by (auto simp: clear_chat_history_def monad_defs Let_def split: option.splits sum.splits)

lemma matches_episodic_filter [simp]:
  "matches_filter [(''user_id'', uid), (''type'', py ''episodic'')] v = episodic_of_user uid v"
  by (simp add: matches_filter_def episodic_of_user_def)

lemma clear_chat_history_memories:
  "stored_memories (snd (clear_chat_history e uid w)) =
     (if fst (clear_chat_history e uid w) = Inr True
      then filter (\<lambda>v. \<not> episodic_of_user uid v) (stored_memories w)
      else stored_memories w)"
  by (auto simp: clear_chat_history_def monad_defs index_defs Let_def store_defs
      split: option.splits sum.splits)

lemma clear_chat_history_rest:
  "active_context (snd (clear_chat_history e uid w)) = (active_context w)(uid := None)"
  "stored_profiles (snd (clear_chat_history e uid w)) = stored_profiles w"
  by (auto simp: clear_chat_history_def monad_defs index_defs Let_def store_defs
      split: option.splits sum.splits)

lemma fact_not_episodic: "fact_typed v \<Longrightarrow> \<not> episodic_of_user uid v"
  by (simp add: fact_typed_def episodic_of_user_def)

lemma filter_keeps_others:
  assumes "\<And>v. P v \<Longrightarrow> Q v"
  shows "filter P (filter Q vs) = filter P vs"
  using assms by (induction vs) auto

text \<open>
  C7. \<open>clear_chat_history\<close> never raises and removes the user's short-term buffer (and no
  other). The profile namespace is unchanged. In the memory namespace every record that is
  not both EPISODIC-typed and scoped to the user is kept, in order; so are, in particular,
  all FACT-typed records. When the call returns \<open>True\<close> the memory namespace holds exactly
  the records that are not episodes of the user.
\<close>

theorem clear_chat_history_frame:
  "(\<exists>b. fst (clear_chat_history e uid w) = Inr b)
   \<and> active_context (snd (clear_chat_history e uid w)) = (active_context w)(uid := None)
   \<and> stored_profiles (snd (clear_chat_history e uid w)) = stored_profiles w
   \<and> filter (\<lambda>v. \<not> episodic_of_user uid v) (stored_memories (snd (clear_chat_history e uid w)))
       = filter (\<lambda>v. \<not> episodic_of_user uid v) (stored_memories w)
   \<and> filter fact_typed (stored_memories (snd (clear_chat_history e uid w)))
       = filter fact_typed (stored_memories w)
   \<and> (fst (clear_chat_history e uid w) = Inr True
      \<longrightarrow> stored_memories (snd (clear_chat_history e uid w))
          = filter (\<lambda>v. \<not> episodic_of_user uid v) (stored_memories w))"
proof -
  have facts: "filter fact_typed (filter (\<lambda>v. \<not> episodic_of_user uid v) vs) = filter fact_typed vs"
    for vs
    by (rule filter_keeps_others) (rule fact_not_episodic)
  show ?thesis
    using clear_chat_history_never_raises [of e uid w]
    by (simp add: clear_chat_history_memories clear_chat_history_rest facts del: filter_filter)
qed

theorem clear_chat_history_frame_witness:
  "fst (clear_chat_history healthy_env alice sample_world) = Inr True
   \<and> stored_memories (snd (clear_chat_history healthy_env alice sample_world))
       = [memory_of (py ''a1'') alice ''fact'' (9/10), memory_of (py ''a3'') alice ''fact'' (1/10),
          memory_of (py ''b1'') bob ''fact'' (95/100), memory_of (py ''b2'') bob ''episodic'' (9/10)]
   \<and> stored_profiles (snd (clear_chat_history healthy_env alice sample_world)) = [alice_record]
   \<and> active_context (snd (clear_chat_history healthy_env alice sample_world)) alice = None"
proof -
  have t: "fst (clear_chat_history healthy_env alice sample_world) = Inr True"
    by (simp add: clear_chat_history_def monad_defs index_defs Let_def healthy_env_def
        sample_world_def)
  have m: "filter (\<lambda>v. \<not> episodic_of_user alice v) (stored_memories sample_world)
       = [memory_of (py ''a1'') alice ''fact'' (9/10), memory_of (py ''a3'') alice ''fact'' (1/10),
          memory_of (py ''b1'') bob ''fact'' (95/100), memory_of (py ''b2'') bob ''episodic'' (9/10)]"
    by (simp add: episodic_of_user_def store_defs sample_world_def memory_of_def alice_def bob_def)
  have p: "stored_profiles sample_world = [alice_record]"
    by (simp add: store_defs sample_world_def)
  show ?thesis
    using t m p clear_chat_history_frame [of healthy_env alice sample_world] by simp
qed

subsection \<open>C8: the steps of \<open>process_realtime_interaction\<close> are best-effort\<close>

lemma unlogged_updates [simp]:
  "unlogged (w\<lparr>logs := l\<rparr>) = unlogged w + int (errors_logged w) - int (length (filter is_error l))"
  "unlogged (w\<lparr>raised := n\<rparr>) = unlogged w + int n - int (raised w)"
  "unlogged (w\<lparr>index := i\<rparr>) = unlogged w"
  "unlogged (w\<lparr>clock := c\<rparr>) = unlogged w"
  "unlogged (w\<lparr>active_context := a\<rparr>) = unlogged w"
  by (simp_all add: unlogged_def errors_logged_def)

lemma errors_logged_updates [simp]:
  "errors_logged (w\<lparr>logs := l\<rparr>) = length (filter is_error l)"
  "errors_logged (w\<lparr>raised := n\<rparr>) = errors_logged w"
  "errors_logged (w\<lparr>index := i\<rparr>) = errors_logged w"
  "errors_logged (w\<lparr>clock := c\<rparr>) = errors_logged w"
  "errors_logged (w\<lparr>active_context := a\<rparr>) = errors_logged w"
  by (simp_all add: errors_logged_def)

lemma errors_logged_logs: "length (filter is_error (logs w)) = errors_logged w"
  by (simp add: errors_logged_def)

lemma get_profile_unlogged [simp]: "unlogged (snd (get_profile e uid w)) = unlogged w"
  by (auto simp: get_profile_def monad_defs index_defs errors_logged_logs
      split: option.splits sum.splits)

lemma update_profile_unlogged [simp]: "unlogged (snd (update_profile e p w)) = unlogged w"
  by (auto simp: update_profile_def monad_defs index_defs errors_logged_logs
      split: option.splits sum.splits)

lemma sync_if_changed_unlogged [simp]: "unlogged (snd (sync_if_changed e p q w)) = unlogged w"
  by (auto simp: sync_if_changed_def monad_defs errors_logged_logs split: option.splits sum.splits)

lemma add_memory_unlogged [simp]:
  "map_of m ''user_id'' \<noteq> None \<Longrightarrow> unlogged (snd (add_memory e t mt (Some m) w)) = unlogged w"
  by (auto simp: add_memory_def monad_defs index_defs tick_def errors_logged_logs
      split: option.splits sum.splits)

lemma get_profile_not_Inl [simp]: "fst (get_profile e uid w) \<noteq> Inl x"
  using get_profile_never_raises [of e uid w] by auto

lemma sync_if_changed_not_Inl [simp]: "fst (sync_if_changed e p q w) \<noteq> Inl x"
  using sync_if_changed_never_raises [of e p q w] by auto

lemma analyze_profile_delta_unlogged:
  "unlogged (snd (analyze_profile_delta e uid um am w))
     = unlogged w + (if isl (fst (analyze_profile_delta e uid um am w)) then 1 else 0)"
  by (auto simp: analyze_profile_delta_def monad_defs errors_logged_logs isl_def
      split: option.splits sum.splits)

lemma episodic_archival_unlogged [simp]:
  "unlogged (snd (episodic_archival e uid um am w)) = unlogged w"
  by (auto simp: episodic_archival_def monad_defs split: sum.splits)

lemma update_short_term_context_unlogged [simp]:
  "unlogged (update_short_term_context uid um am w) = unlogged w"
  by (simp add: update_short_term_context_def Let_def)

lemma episodic_content_nonempty [simp]: "episodic_content um am \<noteq> []"
  by (simp add: episodic_content_def py_def)

lemma add_memory_embedding_raises:
  assumes "index w \<noteq> None" and "text \<noteq> []" and "map_of m ''user_id'' \<noteq> None"
    and "isl (get_embedding e text)"
  shows "add_memory e text mt (Some m) w
         = (Inr None, w\<lparr>raised := Suc (raised w), logs := logs w @ [LogError ''Upsert failed'']\<rparr>)"
  using assms by (auto simp: add_memory_def monad_defs isl_def)

lemma add_memory_upsert_raises:
  assumes "index w \<noteq> None" and "text \<noteq> []" and "map_of m ''user_id'' \<noteq> None"
    and "get_embedding e text = Inr (Some v)" and "v \<noteq> []"
    and "index_raises e (Upsert MemoryStore (memory_vec e (clock w) text mt m v)) \<noteq> None"
  shows "add_memory e text mt (Some m) w
         = (Inr None, w\<lparr>clock := Suc (clock w), raised := Suc (raised w),
                        logs := logs w @ [LogError ''Upsert failed'']\<rparr>)"
  using assms by (auto simp: add_memory_def monad_defs index_defs tick_def)

lemma add_memory_success:
  assumes "index w \<noteq> None" and "text \<noteq> []" and "map_of m ''user_id'' \<noteq> None"
    and "get_embedding e text = Inr (Some v)" and "v \<noteq> []"
    and "index_raises e (Upsert MemoryStore (memory_vec e (clock w) text mt m v)) = None"
  shows "fst (add_memory e text mt (Some m) w) = Inr (Some (uuid4 e (clock w)))"
    and "stored_memories (snd (add_memory e text mt (Some m) w))
         = upsert_vec (memory_vec e (clock w) text mt m v) (stored_memories w)"
  using assms by (auto simp: add_memory_def monad_defs index_defs tick_def store_defs)

lemma episodic_archival_short [simp]:
  "\<not> 50 < length um + length am \<Longrightarrow> episodic_archival e uid um am w = (Inr (), w)"
  by (simp add: episodic_archival_def returnM_def)

lemma episodic_archival_long:
  "50 < length um + length am \<Longrightarrow>
   snd (episodic_archival e uid um am w)
     = snd (add_memory e (episodic_content um am) EPISODIC (Some [(''user_id'', uid)]) w)"
  by (simp add: episodic_archival_def monad_defs split: sum.splits)

lemma process_realtime_interaction_cases:
  assumes "um \<noteq> []" and "am \<noteq> []"
  shows "snd (process_realtime_interaction e uid um am w) =
     (let r2 = analyze_profile_delta e uid um am (update_short_term_context uid um am w)
      in if isl (fst r2)
         then (snd r2)\<lparr>logs := logs (snd r2) @ [LogError ''Real-time processing failed'']\<rparr>
         else snd (episodic_archival e uid um am (snd r2)))"
  using assms
  by (auto simp: process_realtime_interaction_def monad_defs Let_def isl_def split: sum.splits)

lemma process_realtime_interaction_never_raises:
  "fst (process_realtime_interaction e uid um am w) = Inr ()"
  by (auto simp: process_realtime_interaction_def monad_defs split: sum.splits)

lemma process_realtime_interaction_unlogged:
  "unlogged (snd (process_realtime_interaction e uid um am w)) = unlogged w"
proof (cases "um = [] \<or> am = []")
  case True
  then show ?thesis by (auto simp: process_realtime_interaction_def returnM_def)
next
  case False
  then show ?thesis
    by (simp add: process_realtime_interaction_cases Let_def analyze_profile_delta_unlogged
        errors_logged_logs)
qed

lemma clock_step2 [simp]:
  "clock (snd (analyze_profile_delta e uid um am (update_short_term_context uid um am w))) = clock w"
  by simp

lemma long_msg_facts [simp]: "long_msg \<noteq> []" "length long_msg = 30"
  by (simp_all add: long_msg_def)

lemma fresh_world_fields [simp]:
  "index fresh_world \<noteq> None" "stored_memories fresh_world = []" "clock fresh_world = 0"
  "logs fresh_world = []" "stored_profiles fresh_world = []"
  by (simp_all add: fresh_world_def store_defs)

lemma delta_fails:
  "isl (fst (analyze_profile_delta summarizer_fails_env uid um am w))"
  using get_profile_never_raises [of summarizer_fails_env uid w]
  by (auto simp: analyze_profile_delta_def monad_defs summarizer_fails_env_def)

lemma delta_quiet:
  assumes "analyze_interaction_delta e = (\<lambda>p u a. Inr None)"
  shows "fst (analyze_profile_delta e uid um am w) = Inr ()"
    and "snd (analyze_profile_delta e uid um am w) = snd (get_profile e uid w)"
  using get_profile_never_raises [of e uid w] assms
  by (auto simp: analyze_profile_delta_def monad_defs)

lemma get_profile_fresh:
  "snd (get_profile healthy_env uid (update_short_term_context uid um am fresh_world))
     = update_short_term_context uid um am fresh_world"
  "snd (get_profile embedding_fails_env uid (update_short_term_context uid um am fresh_world))
     = update_short_term_context uid um am fresh_world"
  by (simp_all add: get_profile_def monad_defs index_defs parse_fetch_response_def
      update_short_term_context_def Let_def fresh_world_def healthy_env_def embedding_fails_env_def)

text \<open>
  C8. \<open>process_realtime_interaction\<close> never raises, and every exception a collaborator
  raises during the call is logged: the call adds as many error lines to the log as
  exceptions were raised. With non-empty messages: the buffer is the one step 1 left,
  whatever happens later; when step 2 (profile delta) raises, the state is the one step 2
  reached plus the error's log line; when step 2 does not raise, the profiles it persisted
  are what the call leaves, whatever step 3 does; and when in step 3 the embedding provider
  raises or the backend refuses the upsert, the state is the one step 2 left plus the log
  line of the failure.
\<close>

theorem process_realtime_interaction_best_effort:
  "fst (process_realtime_interaction e uid um am w) = Inr ()
   \<and> raised (snd (process_realtime_interaction e uid um am w)) + errors_logged w
       = raised w + errors_logged (snd (process_realtime_interaction e uid um am w))
   \<and> (um \<noteq> [] \<and> am \<noteq> [] \<longrightarrow>
       (let w1 = update_short_term_context uid um am w;
            r2 = analyze_profile_delta e uid um am w1;
            w3 = snd (process_realtime_interaction e uid um am w);
            text = episodic_content um am
        in active_context w3 = active_context w1
           \<and> (isl (fst r2) \<longrightarrow>
                w3 = (snd r2)\<lparr>logs := logs (snd r2) @ [LogError ''Real-time processing failed'']\<rparr>)
           \<and> (\<not> isl (fst r2) \<longrightarrow> stored_profiles w3 = stored_profiles (snd r2))
           \<and> (\<not> isl (fst r2) \<and> 50 < length um + length am \<and> index w \<noteq> None
                \<and> isl (get_embedding e text) \<longrightarrow>
                w3 = (snd r2)\<lparr>raised := Suc (raised (snd r2)),
                              logs := logs (snd r2) @ [LogError ''Upsert failed'']\<rparr>)
           \<and> (\<not> isl (fst r2) \<and> 50 < length um + length am \<and> index w \<noteq> None
                \<and> get_embedding e text = Inr (Some v) \<and> v \<noteq> []
                \<and> index_raises e (Upsert MemoryStore
                     (memory_vec e (clock w) text EPISODIC [(''user_id'', uid)] v)) \<noteq> None \<longrightarrow>
                w3 = (snd r2)\<lparr>clock := Suc (clock (snd r2)), raised := Suc (raised (snd r2)),
                              logs := logs (snd r2) @ [LogError ''Upsert failed'']\<rparr>)))"
proof (intro conjI impI)
  show "fst (process_realtime_interaction e uid um am w) = Inr ()"
    by (rule process_realtime_interaction_never_raises)
next
  show "raised (snd (process_realtime_interaction e uid um am w)) + errors_logged w
       = raised w + errors_logged (snd (process_realtime_interaction e uid um am w))"
    using process_realtime_interaction_unlogged [of e uid um am w] by (simp add: unlogged_def)
next
  assume ne: "um \<noteq> [] \<and> am \<noteq> []"
  let ?w1 = "update_short_term_context uid um am w"
  let ?r2 = "analyze_profile_delta e uid um am ?w1"
  let ?w3 = "snd (process_realtime_interaction e uid um am w)"
  let ?text = "episodic_content um am"
  have w3: "?w3 = (if isl (fst ?r2)
      then (snd ?r2)\<lparr>logs := logs (snd ?r2) @ [LogError ''Real-time processing failed'']\<rparr>
      else snd (episodic_archival e uid um am (snd ?r2)))"
    using ne process_realtime_interaction_cases [of um am e uid w] by (simp add: Let_def)
  have a: "active_context ?w3 = active_context ?w1"
    using ne by (simp add: process_realtime_interaction_ctx)
  have b: "\<not> isl (fst ?r2) \<longrightarrow> stored_profiles ?w3 = stored_profiles (snd ?r2)"
    by (simp add: w3)
  have d: "isl (fst ?r2) \<longrightarrow>
           ?w3 = (snd ?r2)\<lparr>logs := logs (snd ?r2) @ [LogError ''Real-time processing failed'']\<rparr>"
    by (simp add: w3)
  have c: "\<not> isl (fst ?r2) \<and> 50 < length um + length am \<and> index w \<noteq> None
           \<and> isl (get_embedding e ?text) \<longrightarrow>
           ?w3 = (snd ?r2)\<lparr>raised := Suc (raised (snd ?r2)),
                            logs := logs (snd ?r2) @ [LogError ''Upsert failed'']\<rparr>"
  proof
    assume h: "\<not> isl (fst ?r2) \<and> 50 < length um + length am \<and> index w \<noteq> None
               \<and> isl (get_embedding e ?text)"
    have ix: "index (snd ?r2) \<noteq> None" using h by simp
    show "?w3 = (snd ?r2)\<lparr>raised := Suc (raised (snd ?r2)),
                            logs := logs (snd ?r2) @ [LogError ''Upsert failed'']\<rparr>"
      using h add_memory_embedding_raises [OF ix, of ?text "[(''user_id'', uid)]" e EPISODIC]
      by (simp add: w3 episodic_archival_long)
  qed
  have u: "\<not> isl (fst ?r2) \<and> 50 < length um + length am \<and> index w \<noteq> None
           \<and> get_embedding e ?text = Inr (Some v) \<and> v \<noteq> []
           \<and> index_raises e (Upsert MemoryStore
                (memory_vec e (clock w) ?text EPISODIC [(''user_id'', uid)] v)) \<noteq> None \<longrightarrow>
           ?w3 = (snd ?r2)\<lparr>clock := Suc (clock (snd ?r2)), raised := Suc (raised (snd ?r2)),
                            logs := logs (snd ?r2) @ [LogError ''Upsert failed'']\<rparr>"
  proof
    assume h: "\<not> isl (fst ?r2) \<and> 50 < length um + length am \<and> index w \<noteq> None
           \<and> get_embedding e ?text = Inr (Some v) \<and> v \<noteq> []
           \<and> index_raises e (Upsert MemoryStore
                (memory_vec e (clock w) ?text EPISODIC [(''user_id'', uid)] v)) \<noteq> None"
    have ix: "index (snd ?r2) \<noteq> None" using h by simp
    have up: "index_raises e (Upsert MemoryStore
                (memory_vec e (clock (snd ?r2)) ?text EPISODIC [(''user_id'', uid)] v)) \<noteq> None"
      using h by simp
    show "?w3 = (snd ?r2)\<lparr>clock := Suc (clock (snd ?r2)), raised := Suc (raised (snd ?r2)),
                            logs := logs (snd ?r2) @ [LogError ''Upsert failed'']\<rparr>"
      using h add_memory_upsert_raises [OF ix _ _ _ _ up]
      by (simp add: w3 episodic_archival_long)
  qed
  show "let w1 = update_short_term_context uid um am w;
            r2 = analyze_profile_delta e uid um am w1;
            w3 = snd (process_realtime_interaction e uid um am w);
            text = episodic_content um am
        in active_context w3 = active_context w1
           \<and> (isl (fst r2) \<longrightarrow>
                w3 = (snd r2)\<lparr>logs := logs (snd r2) @ [LogError ''Real-time processing failed'']\<rparr>)
           \<and> (\<not> isl (fst r2) \<longrightarrow> stored_profiles w3 = stored_profiles (snd r2))
           \<and> (\<not> isl (fst r2) \<and> 50 < length um + length am \<and> index w \<noteq> None
                \<and> isl (get_embedding e text) \<longrightarrow>
                w3 = (snd r2)\<lparr>raised := Suc (raised (snd r2)),
                              logs := logs (snd r2) @ [LogError ''Upsert failed'']\<rparr>)
           \<and> (\<not> isl (fst r2) \<and> 50 < length um + length am \<and> index w \<noteq> None
                \<and> get_embedding e text = Inr (Some v) \<and> v \<noteq> []
                \<and> index_raises e (Upsert MemoryStore
                     (memory_vec e (clock w) text EPISODIC [(''user_id'', uid)] v)) \<noteq> None \<longrightarrow>
                w3 = (snd r2)\<lparr>clock := Suc (clock (snd r2)), raised := Suc (raised (snd r2)),
                              logs := logs (snd r2) @ [LogError ''Upsert failed'']\<rparr>)"
    unfolding Let_def using a b c d u by blast
qed

lemma delta_persists:
  "fst (analyze_profile_delta upsert_refused_env alice long_msg long_msg
          (update_short_term_context alice long_msg long_msg fresh_world)) = Inr ()"
  "stored_profiles (snd (analyze_profile_delta upsert_refused_env alice long_msg long_msg
          (update_short_term_context alice long_msg long_msg fresh_world)))
     = [profile_vec upsert_refused_env alice_low_profile]"
  "logs (snd (analyze_profile_delta upsert_refused_env alice long_msg long_msg
          (update_short_term_context alice long_msg long_msg fresh_world)))
     = [LogInfo ''Syncing profile changes'']"
  "raised (snd (analyze_profile_delta upsert_refused_env alice long_msg long_msg
          (update_short_term_context alice long_msg long_msg fresh_world))) = 0"
  by (simp_all add: analyze_profile_delta_def get_profile_def sync_if_changed_def update_profile_def
      monad_defs index_defs parse_fetch_response_def upsert_refused_env_def healthy_env_def
      fresh_world_def update_short_term_context_def Let_def UserProfileSchema_new_def
      model_dump_def dict_update_def profile_of_dict_def dict_get_def upsert_vec_def store_defs
      alice_low_profile_def profile_vec_def)

theorem process_realtime_interaction_best_effort_witness:
  "long_msg \<noteq> []
   \<and> isl (fst (analyze_profile_delta summarizer_fails_env alice long_msg long_msg
            (update_short_term_context alice long_msg long_msg fresh_world)))
   \<and> fst (process_realtime_interaction summarizer_fails_env alice long_msg long_msg fresh_world) = Inr ()
   \<and> buffer_length (snd (process_realtime_interaction summarizer_fails_env alice long_msg long_msg
        fresh_world)) alice = 2
   \<and> LogError ''Real-time processing failed''
       \<in> set (logs (snd (process_realtime_interaction summarizer_fails_env alice long_msg long_msg
            fresh_world)))
   \<and> isl (get_embedding embedding_fails_env (episodic_content long_msg long_msg))
   \<and> logs (snd (process_realtime_interaction embedding_fails_env alice long_msg long_msg fresh_world))
       = [LogError ''Upsert failed'']
   \<and> index_raises upsert_refused_env (Upsert MemoryStore
        (memory_vec upsert_refused_env 0 (episodic_content long_msg long_msg) EPISODIC
           [(''user_id'', alice)] [1])) \<noteq> None
   \<and> stored_profiles (snd (process_realtime_interaction upsert_refused_env alice long_msg long_msg
        fresh_world)) = [profile_vec upsert_refused_env alice_low_profile]
   \<and> logs (snd (process_realtime_interaction upsert_refused_env alice long_msg long_msg fresh_world))
       = [LogInfo ''Syncing profile changes'', LogError ''Upsert failed'']
   \<and> raised (snd (process_realtime_interaction upsert_refused_env alice long_msg long_msg
        fresh_world)) = 1"
proof -
  let ?w1 = "update_short_term_context alice long_msg long_msg fresh_world"
  have f: "isl (fst (analyze_profile_delta summarizer_fails_env alice long_msg long_msg ?w1))"
    by (rule delta_fails)
  have q: "analyze_interaction_delta embedding_fails_env = (\<lambda>p u a. Inr None)"
    by (simp add: embedding_fails_env_def healthy_env_def)
  have g: "isl (get_embedding embedding_fails_env (episodic_content long_msg long_msg))"
    by (simp add: embedding_fails_env_def)
  have b: "buffer_length ?w1 alice = 2"
    by (simp add: buffer_length_def update_short_term_context_def Let_def fresh_world_def)
  have r: "index_raises upsert_refused_env (Upsert MemoryStore
        (memory_vec upsert_refused_env 0 (episodic_content long_msg long_msg) EPISODIC
           [(''user_id'', alice)] [1])) \<noteq> None"
    "get_embedding upsert_refused_env (episodic_content long_msg long_msg) = Inr (Some [1])"
    by (simp_all add: upsert_refused_env_def healthy_env_def)
  show ?thesis
    using f g b r
      process_realtime_interaction_best_effort [of summarizer_fails_env alice long_msg long_msg fresh_world]
      process_realtime_interaction_best_effort [of embedding_fails_env alice long_msg long_msg fresh_world]
      process_realtime_interaction_best_effort [of upsert_refused_env alice long_msg long_msg
        fresh_world "[1]"]
    by (simp add: Let_def buffer_length_def delta_quiet [OF q] get_profile_fresh delta_persists)
qed

subsection \<open>C9: episodic archival of long exchanges\<close>

text \<open>
  C9 as stated fails: here both messages are non-empty and together 60 characters long, the
  index is there, and the summarizer raises in step 2; nothing is archived.
\<close>

theorem episodic_archival_counterexample:
  "long_msg \<noteq> [] \<and> 50 < length long_msg + length long_msg
   \<and> index fresh_world \<noteq> None
   \<and> stored_memories (snd (process_realtime_interaction summarizer_fails_env alice long_msg long_msg
        fresh_world)) = []"
  using delta_fails [of alice long_msg long_msg "update_short_term_context alice long_msg long_msg fresh_world"]
  by (simp add: process_realtime_interaction_cases Let_def)

text \<open>
  C9, amended. When the combined length does not exceed 50, and when step 2 raises, the
  memory namespace is left as it was. When the combined length exceeds 50, both messages are
  non-empty, the index is there, step 2 does not raise, the embedding provider returns a
  non-empty vector and the backend accepts the upsert, the memory namespace receives one
  record: EPISODIC-typed, with the user id in its metadata and the exchange as its text.
\<close>

theorem episodic_archival_when_long:
  "(let w1 = update_short_term_context uid um am w;
        r2 = analyze_profile_delta e uid um am w1;
        w3 = snd (process_realtime_interaction e uid um am w);
        text = episodic_content um am;
        new = memory_vec e (clock w) text EPISODIC [(''user_id'', uid)] v
    in (\<not> 50 < length um + length am \<longrightarrow> stored_memories w3 = stored_memories w)
       \<and> (isl (fst r2) \<longrightarrow> stored_memories w3 = stored_memories w)
       \<and> (50 < length um + length am \<and> um \<noteq> [] \<and> am \<noteq> [] \<and> index w \<noteq> None
            \<and> \<not> isl (fst r2) \<and> get_embedding e text = Inr (Some v) \<and> v \<noteq> []
            \<and> index_raises e (Upsert MemoryStore new) = None
          \<longrightarrow> stored_memories w3 = upsert_vec new (stored_memories w)
              \<and> episodic_of_user uid new \<and> map_of (vec_metadata new) ''text'' = Some text))"
proof -
  let ?w1 = "update_short_term_context uid um am w"
  let ?r2 = "analyze_profile_delta e uid um am ?w1"
  let ?w3 = "snd (process_realtime_interaction e uid um am w)"
  let ?text = "episodic_content um am"
  let ?new = "memory_vec e (clock w) ?text EPISODIC [(''user_id'', uid)] v"
  have w3: "um \<noteq> [] \<Longrightarrow> am \<noteq> [] \<Longrightarrow> ?w3 = (if isl (fst ?r2)
      then (snd ?r2)\<lparr>logs := logs (snd ?r2) @ [LogError ''Real-time processing failed'']\<rparr>
      else snd (episodic_archival e uid um am (snd ?r2)))"
    using process_realtime_interaction_cases [of um am e uid w] by (simp add: Let_def)
  have empty: "um = [] \<or> am = [] \<Longrightarrow> ?w3 = w"
    by (auto simp: process_realtime_interaction_def returnM_def)
  have a: "\<not> 50 < length um + length am \<longrightarrow> stored_memories ?w3 = stored_memories w"
    using w3 empty by (cases "um = [] \<or> am = []") auto
  have b: "isl (fst ?r2) \<longrightarrow> stored_memories ?w3 = stored_memories w"
    using w3 empty by (cases "um = [] \<or> am = []") auto
  have c: "50 < length um + length am \<and> um \<noteq> [] \<and> am \<noteq> [] \<and> index w \<noteq> None
            \<and> \<not> isl (fst ?r2) \<and> get_embedding e ?text = Inr (Some v) \<and> v \<noteq> []
            \<and> index_raises e (Upsert MemoryStore ?new) = None
          \<longrightarrow> stored_memories ?w3 = upsert_vec ?new (stored_memories w)
              \<and> episodic_of_user uid ?new \<and> map_of (vec_metadata ?new) ''text'' = Some ?text"
  proof
    assume h: "50 < length um + length am \<and> um \<noteq> [] \<and> am \<noteq> [] \<and> index w \<noteq> None
            \<and> \<not> isl (fst ?r2) \<and> get_embedding e ?text = Inr (Some v) \<and> v \<noteq> []
            \<and> index_raises e (Upsert MemoryStore ?new) = None"
    have ix: "index (snd ?r2) \<noteq> None" using h by simp
    have up: "index_raises e (Upsert MemoryStore
                (memory_vec e (clock (snd ?r2)) ?text EPISODIC [(''user_id'', uid)] v)) = None"
      using h by simp
    have "stored_memories ?w3 = upsert_vec ?new (stored_memories w)"
      using h add_memory_success(2) [OF ix _ _ _ _ up] by (simp add: w3 episodic_archival_long)
    moreover have "episodic_of_user uid ?new \<and> map_of (vec_metadata ?new) ''text'' = Some ?text"
      by (simp add: episodic_of_user_def memory_vec_def)
    ultimately show "stored_memories ?w3 = upsert_vec ?new (stored_memories w)
              \<and> episodic_of_user uid ?new \<and> map_of (vec_metadata ?new) ''text'' = Some ?text"
      by simp
  qed
  show ?thesis unfolding Let_def using a b c by blast
qed

theorem episodic_archival_when_long_witness:
  "50 < length long_msg + length long_msg
   \<and> stored_memories (snd (process_realtime_interaction healthy_env alice long_msg long_msg fresh_world))
       = [memory_vec healthy_env 0 (episodic_content long_msg long_msg) EPISODIC
            [(''user_id'', alice)] [1]]
   \<and> \<not> 50 < length (py ''hi'') + length (py ''hello'')
   \<and> stored_memories (snd (process_realtime_interaction healthy_env alice (py ''hi'') (py ''hello'')
        fresh_world)) = []"
proof -
  have q: "analyze_interaction_delta healthy_env = (\<lambda>p u a. Inr None)"
    by (simp add: healthy_env_def)
  have e: "get_embedding healthy_env (episodic_content long_msg long_msg) = Inr (Some [1])"
    "index_raises healthy_env c = None" for c
    by (simp_all add: healthy_env_def)
  show ?thesis
    using episodic_archival_when_long [of alice long_msg long_msg fresh_world healthy_env "[1]"]
      episodic_archival_when_long [of alice "py ''hi''" "py ''hello''" fresh_world healthy_env "[1]"]
    by (simp add: Let_def delta_quiet [OF q] e upsert_vec_def py_def)
qed

end
